theory Spec2Isabelle
  imports Main "HOL-Library.Multiset" "HOL-Library.Sublist"
begin

section \<open>Common conventions\<close>

text \<open>
  A Go \<open>error\<close> value is modelled by its message (the result of \<open>Error()\<close>); a nil-able
  error is an \<open>error option\<close> with \<open>None\<close> for \<open>nil\<close>.  A \<open>time.Time\<close> is a natural
  number.  A run-time panic of the Go program is the value \<open>Panicked\<close>.
\<close>

type_synonym error = string
type_synonym time = nat

datatype 'a outcome = Panicked | Returned 'a

text \<open>
  Go leaves two orders unspecified that the code below depends on: the order in which
  concurrently running goroutines deliver their results, and the order in which a
  \<open>range\<close> loop visits the entries of a map.  Both are modelled by \<open>pick\<close>: the numbers
  of the schedule choose, one after the other, which of the remaining elements comes
  next; when the schedule is used up the remaining elements follow in their given order.
\<close>

fun pick :: "nat list \<Rightarrow> 'a list \<Rightarrow> 'a list" where
  "pick [] xs = xs"
| "pick (s # ss) xs =
     (if xs = [] then []
      else let i = s mod length xs
           in xs ! i # pick ss (take i xs @ drop (Suc i) xs))"

section \<open>Groups: \<open>internal/models\<close> and \<open>internal/config/groups.go\<close>\<close>

record Group =
  ID :: string
  Name :: string
  Description :: string
  ContainerIDs :: "string list"
  Created :: time
  Modified :: time
  Color :: string

record GroupConfig =
  Version :: string
  Groups :: "Group list"
  LastModified :: time

text \<open>
  \<open>FindGroup\<close> returns a pointer to the first group of the slice with the given ID; the
  pointer \<open>&gc.Groups[i]\<close> is modelled by the index \<open>i\<close>.
\<close>

fun FindGroup_from :: "Group list \<Rightarrow> string \<Rightarrow> nat option" where
  "FindGroup_from [] gid = None"
| "FindGroup_from (g # gs) gid =
     (if Group.ID g = gid then Some 0 else map_option Suc (FindGroup_from gs gid))"

definition FindGroup :: "GroupConfig \<Rightarrow> string \<Rightarrow> nat option" where
  "FindGroup gc gid = FindGroup_from (Groups gc) gid"

text \<open>
  \<open>UpdateGroup\<close> overwrites the first group with the ID of \<open>updated\<close>; the two readings
  of the clock are \<open>t1\<close> and \<open>t2\<close>.
\<close>

definition UpdateGroup :: "GroupConfig \<Rightarrow> Group \<Rightarrow> time \<Rightarrow> time \<Rightarrow> bool \<times> GroupConfig" where
  "UpdateGroup gc updated t1 t2 =
     (case FindGroup_from (Groups gc) (Group.ID updated) of
        None \<Rightarrow> (False, gc)
      | Some i \<Rightarrow>
          (True, gc\<lparr>Groups := (Groups gc)[i := updated\<lparr>Modified := t1\<rparr>],
                    LastModified := t2\<rparr>))"

text \<open>
  The manager holds the configuration; its mutex makes every method atomic, which is how
  the methods are modelled.  The file system is outside the repository's logic: the
  state of the disk is a value of type \<open>'d\<close> and \<open>SaveConfig\<close> is a parameter that may
  fail.  \<open>now k\<close> is the value of the \<open>k\<close>-th call of \<open>time.Now()\<close> within one method call.
\<close>

record GroupManager =
  config :: GroupConfig

type_synonym 'd SaveConfig = "GroupConfig \<Rightarrow> 'd \<Rightarrow> error option \<times> 'd"

definition save :: "'d SaveConfig \<Rightarrow> time \<Rightarrow> GroupManager \<Rightarrow> 'd \<Rightarrow> error option \<times> GroupManager \<times> 'd" where
  "save SaveConfig t m d =
     (let m' = m\<lparr>config := (config m)\<lparr>LastModified := t\<rparr>\<rparr>;
          (e, d') = SaveConfig (config m') d
      in (e, m', d'))"

definition GetGroup :: "GroupManager \<Rightarrow> string \<Rightarrow> Group option" where
  "GetGroup m gid = map_option (\<lambda>i. Groups (config m) ! i) (FindGroup (config m) gid)"

definition AddContainerToGroup ::
  "'d SaveConfig \<Rightarrow> (nat \<Rightarrow> time) \<Rightarrow> GroupManager \<Rightarrow> string \<Rightarrow> string \<Rightarrow> 'd
     \<Rightarrow> error option \<times> GroupManager \<times> 'd" where
  "AddContainerToGroup SaveConfig now m groupID containerID d =
     (case FindGroup (config m) groupID of
        None \<Rightarrow> (Some (''group not found: '' @ groupID), m, d)
      | Some i \<Rightarrow>
          let grp = Groups (config m) ! i in
          if containerID \<in> set (ContainerIDs grp) then (None, m, d)
          else
            let grp' = grp\<lparr>ContainerIDs := ContainerIDs grp @ [containerID],
                               Modified := now 0\<rparr>;
                cfg1 = (config m)\<lparr>Groups := (Groups (config m))[i := grp']\<rparr>;
                (found, cfg2) = UpdateGroup cfg1 grp' (now 1) (now 2);
                m2 = m\<lparr>config := cfg2\<rparr>
            in if \<not> found then (Some ''failed to update group'', m2, d)
               else save SaveConfig (now 3) m2 d)"

subsection \<open>\<open>ExecuteGroupOperation\<close>\<close>

text \<open>
  One goroutine per container ID runs the operation and sends one \<open>result\<close> on a channel
  whose capacity is the number of IDs, so that no send blocks.  \<open>spawn_all\<close> is the list
  of results in launch order; the channel delivers them in the order \<open>pick sched\<close>.
\<close>

record result =
  containerID :: string
  err :: "error option"

type_synonym ContainerOperation = "string \<Rightarrow> error option"

definition spawn_all :: "string list \<Rightarrow> ContainerOperation \<Rightarrow> result list" where
  "spawn_all ids operation = map (\<lambda>cid. \<lparr>containerID = cid, err = operation cid\<rparr>) ids"

text \<open>
  The collecting loop.  \<open>r.containerID[:12]\<close> panics when the ID has fewer than 12 bytes.
\<close>

fun collect_errors :: "result list \<Rightarrow> error list \<Rightarrow> error list outcome" where
  "collect_errors [] errs = Returned errs"
| "collect_errors (r # rs) errs =
     (case err r of
        None \<Rightarrow> collect_errors rs errs
      | Some e \<Rightarrow>
          if length (containerID r) < 12 then Panicked
          else collect_errors rs (errs @ [take 12 (containerID r) @ '': '' @ e]))"

text \<open>\<open>%v\<close> of a slice of errors: the messages, separated by one space, in brackets.\<close>

fun join_space :: "string list \<Rightarrow> string" where
  "join_space [] = []"
| "join_space [x] = x"
| "join_space (x # y # ys) = x @ '' '' @ join_space (y # ys)"

definition format_errs :: "error list \<Rightarrow> string" where
  "format_errs errs = ''['' @ join_space errs @ '']''"

text \<open>
  The result is the list of container IDs whose goroutine ran the operation and
  delivered a result (the channel's content, in the order of delivery), and what the method returns.
\<close>

definition ExecuteGroupOperation ::
  "GroupManager \<Rightarrow> string \<Rightarrow> ContainerOperation \<Rightarrow> nat list \<Rightarrow> string list \<times> error option outcome" where
  "ExecuteGroupOperation m groupID operation sched =
     (case GetGroup m groupID of
        None \<Rightarrow> ([], Returned (Some (''group not found: '' @ groupID)))
      | Some grp \<Rightarrow>
          let results = pick sched (spawn_all (ContainerIDs grp) operation) in
          (map containerID results,
           case collect_errors results [] of
             Panicked \<Rightarrow> Panicked
           | Returned errs \<Rightarrow>
               if length errs > 0
               then Returned (Some (''group operation failed: '' @ format_errs errs))
               else Returned None))"

subsection \<open>Concrete groups\<close>

text \<open>A manager with one group that holds one container.\<close>

definition m0 :: GroupManager where
  "m0 = \<lparr>config = \<lparr>Version = ''1.0'',
     Groups = [\<lparr>ID = ''g1'', Name = ''web'', Description = '''', ContainerIDs = [''c1''],
                Created = 0, Modified = 0, Color = ''blue''\<rparr>], LastModified = 0\<rparr>\<rparr>"

text \<open>
  A group of three containers, the last with an ID shorter than a Docker ID, and an
  operation that fails for one container only.
\<close>

definition grp1 :: Group where
  "grp1 = \<lparr>ID = ''g1'', Name = ''web'', Description = [],
            ContainerIDs = [''aaaaaaaaaaaa1111'', ''bbbbbbbbbbbb2222'', ''abc''],
            Created = 0, Modified = 0, Color = ''blue''\<rparr>"

definition m1 :: GroupManager where
  "m1 = \<lparr>config = \<lparr>Version = ''1.0'', Groups = [grp1], LastModified = 0\<rparr>\<rparr>"

definition fails_on :: "string \<Rightarrow> ContainerOperation" where
  "fails_on bad cid = (if cid = bad then Some ''boom'' else None)"


section \<open>The recreate workflow: \<open>internal/docker/containers.go\<close>\<close>

record HostPortBinding =
  HostIP :: string
  HostPort :: string

record ContainerRestartPolicy =
  RestartPolicyName :: string
  MaximumRetryCount :: int

record NetworkEndpointConfig =
  IPAddress :: string
  Aliases :: "string list"
  NetworkID :: string

text \<open>
  The Go maps of the configuration are association lists with distinct keys; the order of
  the list has no meaning, since every \<open>range\<close> loop over a map goes through \<open>pick\<close>.
\<close>

record ContainerFullConfig =
  Name :: string
  Image :: string
  Env :: "string list"
  Binds :: "string list"
  PortBindings :: "(string \<times> HostPortBinding list) list"
  RestartPolicy :: ContainerRestartPolicy
  NetworkMode :: string
  Privileged :: bool
  CapAdd :: "string list"
  CapDrop :: "string list"
  Networks :: "(string \<times> NetworkEndpointConfig) list"
  Cmd :: "string list"
  Entrypoint :: "string list"
  WorkingDir :: string
  User :: string
  Labels :: "(string \<times> string) list"

text \<open>What \<open>ContainerCreate\<close> of the Docker SDK is given.\<close>

record create_request =
  cr_Image :: string
  cr_Env :: "string list"
  cr_Cmd :: "string list"
  cr_Entrypoint :: "string list"
  cr_WorkingDir :: string
  cr_User :: string
  cr_Labels :: "(string \<times> string) list"
  cr_ExposedPorts :: "string set"
  cr_Binds :: "string list"
  cr_NetworkMode :: string
  cr_Privileged :: bool
  cr_CapAdd :: "string list"
  cr_CapDrop :: "string list"
  cr_RestartPolicy :: ContainerRestartPolicy
  cr_PortBindings :: "(string \<times> HostPortBinding list) list"
  cr_EndpointsConfig :: "(string \<times> string list) option"
  cr_Name :: string

text \<open>
  The Docker SDK client is outside the repository: its calls are parameters, functions
  on the state \<open>'w\<close> of the daemon.  \<open>ContainerCreate\<close> returns an error or the ID of
  the new container.
\<close>

record 'w DockerAPI =
  ContainerStop :: "string \<Rightarrow> nat \<Rightarrow> 'w \<Rightarrow> error option \<times> 'w"
  ContainerRemove :: "string \<Rightarrow> bool \<Rightarrow> 'w \<Rightarrow> error option \<times> 'w"
  ContainerCreate :: "create_request \<Rightarrow> 'w \<Rightarrow> (error + string) \<times> 'w"
  NetworkConnect :: "string \<Rightarrow> string \<Rightarrow> string list \<Rightarrow> 'w \<Rightarrow> error option \<times> 'w"
  ContainerStart :: "string \<Rightarrow> 'w \<Rightarrow> error option \<times> 'w"

text \<open>
  The calls a run makes are recorded, each with what the daemon answered, in the order in
  which they are made.
\<close>

datatype sdk_event =
    EvStop string "error option"
  | EvRemove string "error option"
  | EvCreate string "error + string"
  | EvConnect string string "error option"
  | EvStart string "error option"

text \<open>
  Step 7: every network but \<open>firstNetworkName\<close> is connected; an error of
  \<open>NetworkConnect\<close> is dropped and the loop goes on.
\<close>

fun connect_networks ::
  "'w DockerAPI \<Rightarrow> string \<Rightarrow> string \<Rightarrow> (string \<times> NetworkEndpointConfig) list \<Rightarrow> 'w
     \<Rightarrow> sdk_event list \<times> 'w" where
  "connect_networks api newID firstNetworkName [] w = ([], w)"
| "connect_networks api newID firstNetworkName ((netName, netConfig) # rest) w =
     (if netName = firstNetworkName then connect_networks api newID firstNetworkName rest w
      else
        let (e, w') = NetworkConnect api (NetworkID netConfig) newID (Aliases netConfig) w;
            (evs, w'') = connect_networks api newID firstNetworkName rest w'
        in (EvConnect (NetworkID netConfig) newID e # evs, w''))"

definition build_request ::
  "ContainerFullConfig \<Rightarrow> (string \<times> string list) option \<Rightarrow> create_request" where
  "build_request newConfig networkConfig =
     \<lparr>cr_Image = Image newConfig, cr_Env = Env newConfig, cr_Cmd = Cmd newConfig,
      cr_Entrypoint = Entrypoint newConfig, cr_WorkingDir = WorkingDir newConfig,
      cr_User = User newConfig, cr_Labels = Labels newConfig,
      cr_ExposedPorts = set (map fst (PortBindings newConfig)),
      cr_Binds = Binds newConfig, cr_NetworkMode = NetworkMode newConfig,
      cr_Privileged = Privileged newConfig, cr_CapAdd = CapAdd newConfig,
      cr_CapDrop = CapDrop newConfig, cr_RestartPolicy = RestartPolicy newConfig,
      cr_PortBindings = PortBindings newConfig,
      cr_EndpointsConfig = networkConfig, cr_Name = Name newConfig\<rparr>"

text \<open>
  Step 5: the endpoint configuration given to \<open>ContainerCreate\<close> holds the first
  network that the \<open>range\<close> loop visits (nil when there is no network), and
  \<open>firstNetworkName\<close> is its name (empty when there is none).
\<close>

definition first_network ::
  "nat list \<Rightarrow> ContainerFullConfig \<Rightarrow> (string \<times> string list) option" where
  "first_network sched5 newConfig =
     (case pick sched5 (Networks newConfig) of
        [] \<Rightarrow> None
      | (netName, netConfig) # _ \<Rightarrow> Some (netName, Aliases netConfig))"

definition first_network_name :: "nat list \<Rightarrow> ContainerFullConfig \<Rightarrow> string" where
  "first_network_name sched5 newConfig =
     (case first_network sched5 newConfig of None \<Rightarrow> [] | Some (netName, _) \<Rightarrow> netName)"

text \<open>
  \<open>RecreateContainer\<close>.  \<open>newConfig\<close> is a pointer, \<open>None\<close> when nil; the two schedules
  are the orders of the \<open>range\<close> loops of step 5 and step 7 over \<open>newConfig.Networks\<close>.
  The result is what the method returns (the ID and the error), the calls made, and the
  state of the daemon.
\<close>

definition RecreateContainer ::
  "'w DockerAPI \<Rightarrow> nat list \<Rightarrow> nat list \<Rightarrow> string \<Rightarrow> ContainerFullConfig option \<Rightarrow> 'w
     \<Rightarrow> (string \<times> error option) outcome \<times> sdk_event list \<times> 'w" where
  "RecreateContainer api sched5 sched7 cid newConfig w =
     (let (stopErr, w1) = ContainerStop api cid 10 w;
          (rmErr, w2) = ContainerRemove api cid True w1;
          log2 = [EvStop cid stopErr, EvRemove cid rmErr]
      in case rmErr of
           Some e \<Rightarrow> (Returned ([], Some (''failed to remove old container: '' @ e)), log2, w2)
         | None \<Rightarrow>
            (case newConfig of
               None \<Rightarrow> (Panicked, log2, w2)
             | Some cfg \<Rightarrow>
                 let (resp, w3) =
                       ContainerCreate api (build_request cfg (first_network sched5 cfg)) w2;
                     log3 = log2 @ [EvCreate (Name cfg) resp]
                 in (case resp of
                      Inl e \<Rightarrow>
                        (Returned ([], Some (''failed to create new container: '' @ e)), log3, w3)
                    | Inr newID \<Rightarrow>
                        let (evs, w4) = connect_networks api newID (first_network_name sched5 cfg)
                                          (pick sched7 (Networks cfg)) w3;
                            (startErr, w5) = ContainerStart api newID w4;
                            log5 = log3 @ evs @ [EvStart newID startErr]
                        in (case startErr of
                             Some e \<Rightarrow>
                               (Returned (newID,
                                  Some (''container created but failed to start: '' @ e)), log5, w5)
                           | None \<Rightarrow> (Returned (newID, None), log5, w5)))))"

subsection \<open>A concrete run\<close>




section \<open>The data of the user interface: \<open>internal/models\<close>\<close>

datatype ViewType =
    ViewContainers | ViewImages | ViewGroups | ViewVolumes | ViewCompose
  | ViewNetworks | ViewLogs | ViewStats | ViewEnvVars | ViewAbout

datatype GroupsTabType = GroupsListTab | GroupsContainersTab | GroupsAvailableTab

datatype NetworksTabType = NetworksListTab | NetworksContainersTab | NetworksAvailableTab

text \<open>The tab types are Go integers; \<open>SwitchTab\<close> computes with their values.\<close>

fun int_of_GroupsTabType :: "GroupsTabType \<Rightarrow> int" where
  "int_of_GroupsTabType GroupsListTab = 0"
| "int_of_GroupsTabType GroupsContainersTab = 1"
| "int_of_GroupsTabType GroupsAvailableTab = 2"

definition GroupsTabType_of_int :: "int \<Rightarrow> GroupsTabType" where
  "GroupsTabType_of_int n =
     (if n = 0 then GroupsListTab else if n = 1 then GroupsContainersTab else GroupsAvailableTab)"

fun int_of_NetworksTabType :: "NetworksTabType \<Rightarrow> int" where
  "int_of_NetworksTabType NetworksListTab = 0"
| "int_of_NetworksTabType NetworksContainersTab = 1"
| "int_of_NetworksTabType NetworksAvailableTab = 2"

definition NetworksTabType_of_int :: "int \<Rightarrow> NetworksTabType" where
  "NetworksTabType_of_int n =
     (if n = 0 then NetworksListTab else if n = 1 then NetworksContainersTab
      else NetworksAvailableTab)"

text \<open>
  Of a container, a network, an image, a volume and a compose project the records keep
  the fields that the modelled code reads or writes; port mappings, mounts, label maps
  and sizes are carried along by the code and left out.
\<close>

record Container =
  ID :: string
  ShortID :: string
  Name :: string
  Image :: string
  Status :: string
  State :: string
  Created :: time
  Networks :: "string list"

text \<open>
  The \<open>models.Container\<close> literal with an ID and a name only, as the reducer builds it
  from a loaded configuration.
\<close>

definition container_ref :: "string \<Rightarrow> string \<Rightarrow> Container" where
  "container_ref cid cname =
     \<lparr>ID = cid, ShortID = [], Name = cname, Image = [], Status = [], State = [], Created = 0,
      Networks = []\<rparr>"

record Network =
  ID :: string
  Name :: string
  Driver :: string
  Scope :: string
  Internal :: bool
  Attachable :: bool
  Created :: time
  Containers :: "string list"

definition IsSystemNetwork :: "Network \<Rightarrow> bool" where
  "IsSystemNetwork n \<longleftrightarrow>
     Network.Name n = ''bridge'' \<or> Network.Name n = ''host'' \<or> Network.Name n = ''none''"

record Image =
  ID :: string
  RepoTags :: "string list"

record Volume =
  Name :: string

record ComposeProject =
  Name :: string

record LogEntry =
  Line :: string
  Timestamp :: time
  IsError :: bool

record ContainerStats =
  ContainerID :: string
  MemoryUsage :: nat
  MemoryLimit :: nat
  NetworkRx :: nat
  NetworkTx :: nat
  BlockRead :: nat
  BlockWrite :: nat
  PIDs :: nat
  Timestamp :: time

record AppState =
  CurrentView :: ViewType
  PreviousView :: ViewType
  SelectedContainer :: "Container option"

definition NewAppState :: AppState where
  "NewAppState = \<lparr>CurrentView = ViewContainers, PreviousView = ViewContainers,
                   SelectedContainer = None\<rparr>"

text \<open>
  The Docker client of \<open>internal/docker\<close> wraps a connection of the SDK; \<open>Close\<close> closes
  it.  A channel is known by its number; the channels themselves are in the store of the
  run-time model below.
\<close>

record Client =
  closed :: bool

type_synonym chan = nat

section \<open>Messages, commands and the widgets of the libraries\<close>

text \<open>
  The widgets of the \<open>bubbles\<close> library (list, text input, viewport) are outside the
  repository.  A widget is modelled by the state that the repository's code reads
  (\<open>Index()\<close> is \<open>cursor\<close>, \<open>FilterState()\<close> is \<open>filterState\<close>, \<open>Value()\<close> is
  \<open>Value\<close>); what the widgets do with a message or with new items is a parameter of the
  model, collected in the record \<open>ext\<close> below.
\<close>

datatype FilterState = Unfiltered | Filtering | FilterApplied

datatype Item =
    GroupItem Group
  | ContainerItemForGroup Container
  | NetworkItem Network
  | ContainerItemForNetwork Container

record list_Model =
  items :: "Item list"
  cursor :: nat
  filterState :: FilterState
  list_width :: int
  list_height :: int

definition list_SetSize :: "int \<Rightarrow> int \<Rightarrow> list_Model \<Rightarrow> list_Model" where
  "list_SetSize w h l = l\<lparr>list_width := w, list_height := h\<rparr>"

record textinput =
  Value :: string
  focus :: bool

datatype viewport_position = AtTop | AtBottom | Scrolled

record viewport =
  content :: string
  position :: viewport_position
  Width :: int
  Height :: int

subsection \<open>Messages: \<open>internal/app/messages.go\<close>\<close>

text \<open>
  The messages that reach \<open>Update\<close>.  \<open>LogEntryMsg\<close> is a \<open>docker.LogEntry\<close>,
  \<open>ContainerStatsMsg\<close> a pointer to a \<open>models.ContainerStats\<close>, \<open>RawErrorMsg\<close> a bare
  \<open>error\<close> value (what \<open>waitForLogEntry\<close> and \<open>waitForStats\<close> of package \<open>views\<close> return
  for an error), and \<open>OtherMsg\<close> any message of another type (the libraries' own).
  The error of an \<open>ErrorMsg\<close> is not nil.
\<close>

datatype Msg =
    KeyMsg string
  | WindowSizeMsg int int
  | DockerClientReadyMsg Client
  | GroupManagerReadyMsg GroupManager
  | GroupsLoadedMsg "Group list"
  | ContainersLoadedMsg "Container list"
  | ImagesLoadedMsg "Image list"
  | ContainerStartedMsg string "error option"
  | ContainerStoppedMsg string "error option"
  | ContainerRestartedMsg string "error option"
  | ContainerRemovedMsg string "error option"
  | ImageRemovedMsg string "error option"
  | GroupStartedMsg string "error option"
  | GroupStoppedMsg string "error option"
  | GroupCreatedMsg string
  | ContainerAddedToGroupMsg string string "error option"
  | ContainerRemovedFromGroupMsg string string "error option"
  | RefreshTickMsg
  | ErrorMsg error
  | StatusMsg string
  | ClearStatusMsg
  | VolumesLoadedMsg "Volume list"
  | VolumeRemovedMsg string "error option"
  | ComposeProjectsLoadedMsg "ComposeProject list"
  | ComposeProjectStartedMsg string "error option"
  | ComposeProjectStoppedMsg string "error option"
  | ComposeProjectRestartedMsg string "error option"
  | ImagePullCompletedMsg string "error option"
  | NetworksLoadedMsg "Network list"
  | ContainerConnectedToNetworkMsg string string "error option"
  | ContainerDisconnectedFromNetworkMsg string string "error option"
  | NetworkCreatedMsg string "error option"
  | NetworkRemovedMsg string "error option"
  | ContainerConfigLoadedMsg string "ContainerFullConfig option" "error option"
  | ContainerRecreatedMsg string string string "error option"
  | LogEntryMsg LogEntry
  | ContainerStatsMsg ContainerStats
  | RawErrorMsg error
  | OtherMsg nat

subsection \<open>Commands\<close>

text \<open>
  A \<open>tea.Cmd\<close> is a closure; a command is modelled by the function of \<open>app.go\<close> that
  built it and the arguments the closure captured.  \<open>Tick d m\<close> delivers \<open>m\<close> after
  \<open>d\<close> seconds, \<open>Batch\<close> is \<open>tea.Batch\<close> (some of its arguments may be nil),
  \<open>ViewsWaitForLogEntry\<close> and \<open>ViewsWaitForStats\<close> are the functions of package
  \<open>views\<close>, and \<open>WidgetCmd\<close> is a command that a widget of a library returned.  A nil
  channel is \<open>None\<close>.
\<close>

datatype Cmd =
    Quit
  | EnterAltScreen
  | Batch "Cmd option list"
  | Tick nat Msg
  | initDockerClient
  | initGroupManager
  | fetchContainers "Client option"
  | startContainer "Client option" string
  | stopContainer "Client option" string
  | restartContainer "Client option" string
  | fetchImages "Client option"
  | removeImage "Client option" string
  | loadGroups "GroupManager option"
  | startGroup "Client option" "GroupManager option" string
  | stopGroup "Client option" "GroupManager option" string
  | addContainerToGroup "GroupManager option" string string
  | removeContainerFromGroup "GroupManager option" string string
  | startLogStreaming "Client option" Container
  | waitForLogEntry "chan option" "chan option"
  | ViewsWaitForLogEntry "chan option" "chan option"
  | startStatsStreaming "Client option" Container
  | waitForStats "chan option" "chan option"
  | ViewsWaitForStats "chan option" "chan option"
  | execShell string string
  | removeContainer "Client option" string
  | deleteGroup "GroupManager option" string
  | createGroup "GroupManager option" string string "string list"
  | fetchVolumes "Client option"
  | removeVolume "Client option" string
  | pruneVolumes "Client option"
  | fetchComposeProjects "Client option"
  | startComposeProject "Client option" string
  | stopComposeProject "Client option" string
  | restartComposeProject "Client option" string
  | pullImage "Client option" string
  | fetchNetworks "Client option"
  | connectContainerToNetwork "Client option" string string
  | disconnectContainerFromNetwork "Client option" string string
  | createNetwork "Client option" string string
  | removeNetwork "Client option" string
  | loadContainerConfig "Client option" string
  | recreateContainer "Client option" string "ContainerFullConfig option"
  | WidgetCmd nat

definition tickRefresh :: Cmd where
  "tickRefresh = Tick 2 RefreshTickMsg"

definition clearStatus :: "nat \<Rightarrow> Cmd" where
  "clearStatus duration = Tick duration ClearStatusMsg"

subsection \<open>What the libraries and the other views do\<close>

text \<open>
  The containers, images, volumes, compose and environment views are modelled by what
  their methods report to the reducer: \<open>IsFiltering()\<close>, the selected resource, the
  drill-down level, the editor's mode.  Their transitions are made by the list widget and
  are parameters, like the transitions of the widgets themselves.
\<close>

record ContainersView =
  containersView_IsFiltering :: bool
  containersView_GetSelectedContainer :: "Container option"
  containersView_width :: int
  containersView_height :: int

record ImagesView =
  imagesView_IsFiltering :: bool
  imagesView_GetSelectedImage :: "Image option"
  imagesView_width :: int
  imagesView_height :: int

record VolumesView =
  volumesView_IsFiltering :: bool
  volumesView_GetSelectedVolume :: "Volume option"
  volumesView_width :: int
  volumesView_height :: int

record ComposeView =
  composeView_IsFiltering :: bool
  composeView_IsViewingServices :: bool
  composeView_IsViewingContainers :: bool
  composeView_GetSelectedContainer :: "Container option"
  composeView_GetSelectedProject :: "ComposeProject option"
  composeView_width :: int
  composeView_height :: int

record EnvVarsView =
  envVarsView_IsFiltering :: bool
  envVarsView_IsEditing :: bool
  envVarsView_IsModified :: bool
  envVarsView_GetEnvVars :: "string list"
  envVarsView_width :: int
  envVarsView_height :: int

record AboutView =
  aboutView_width :: int
  aboutView_height :: int

record ext =
  list_SetItems :: "Item list \<Rightarrow> list_Model \<Rightarrow> list_Model"
  list_Update :: "Msg \<Rightarrow> list_Model \<Rightarrow> list_Model \<times> Cmd option"
  textinput_Update :: "Msg \<Rightarrow> textinput \<Rightarrow> textinput \<times> Cmd option"
  viewport_Update :: "Msg \<Rightarrow> viewport \<Rightarrow> viewport \<times> Cmd option"
  containersView_Update :: "Msg \<Rightarrow> ContainersView \<Rightarrow> ContainersView \<times> Cmd option"
  containersView_SetContainers :: "Container list \<Rightarrow> ContainersView \<Rightarrow> ContainersView"
  imagesView_Update :: "Msg \<Rightarrow> ImagesView \<Rightarrow> ImagesView \<times> Cmd option"
  imagesView_SetImages :: "Image list \<Rightarrow> ImagesView \<Rightarrow> ImagesView"
  volumesView_Update :: "Msg \<Rightarrow> VolumesView \<Rightarrow> VolumesView \<times> Cmd option"
  volumesView_SetVolumes :: "Volume list \<Rightarrow> VolumesView \<Rightarrow> VolumesView"
  volumesView_SetAllContainers :: "Container list \<Rightarrow> VolumesView \<Rightarrow> VolumesView"
  composeView_Update :: "Msg \<Rightarrow> ComposeView \<Rightarrow> ComposeView \<times> Cmd option"
  composeView_SetProjects :: "ComposeProject list \<Rightarrow> ComposeView \<Rightarrow> ComposeView"
  envVarsView_Update :: "Msg \<Rightarrow> EnvVarsView \<Rightarrow> EnvVarsView \<times> Cmd option"
  envVarsView_SetContainer :: "string \<Rightarrow> string \<Rightarrow> string list \<Rightarrow> EnvVarsView \<Rightarrow> EnvVarsView"

text \<open>\<open>AboutView.Update\<close> returns the view and no command.\<close>

definition AboutView_Update :: "Msg \<Rightarrow> AboutView \<Rightarrow> AboutView \<times> Cmd option" where
  "AboutView_Update msg v = (v, None)"

section \<open>The groups view: \<open>internal/ui/views/groups.go\<close>\<close>

text \<open>
  \<open>selectedGroup\<close> is a pointer to an element of the slice \<open>groups\<close> as it was when the
  group was selected; no code writes through it or to that element, so the pointer is
  modelled by the value it points to, \<open>None\<close> when nil.
\<close>

record GroupsView =
  currentTab :: GroupsTabType
  groups :: "Group list"
  allContainers :: "Container list"
  selectedGroup :: "Group option"
  groupsList :: list_Model
  containersInGroupList :: list_Model
  availableContainersList :: list_Model
  width :: int
  height :: int

definition SetGroups :: "ext \<Rightarrow> Group list \<Rightarrow> GroupsView \<Rightarrow> GroupsView" where
  "SetGroups lib gs v =
     v\<lparr>groups := gs, groupsList := list_SetItems lib (map GroupItem gs) (groupsList v)\<rparr>"

definition GetSelectedGroup :: "GroupsView \<Rightarrow> Group option" where
  "GetSelectedGroup v =
     (if length (groups v) = 0 \<or> cursor (groupsList v) \<ge> length (groups v) then None
      else Some (groups v ! cursor (groupsList v)))"

definition GetContainersInGroup :: "GroupsView \<Rightarrow> Container list" where
  "GetContainersInGroup v =
     (case selectedGroup v of
        None \<Rightarrow> []
      | Some g \<Rightarrow> filter (\<lambda>c. Container.ID c \<in> set (ContainerIDs g)) (allContainers v))"

definition GetAvailableContainers :: "GroupsView \<Rightarrow> Container list" where
  "GetAvailableContainers v =
     (case selectedGroup v of
        None \<Rightarrow> []
      | Some g \<Rightarrow> filter (\<lambda>c. Container.ID c \<notin> set (ContainerIDs g)) (allContainers v))"

definition GetSelectedInGroupContainer :: "GroupsView \<Rightarrow> Container option" where
  "GetSelectedInGroupContainer v =
     (let containers = GetContainersInGroup v in
      if length containers = 0 \<or> cursor (containersInGroupList v) \<ge> length containers then None
      else Some (containers ! cursor (containersInGroupList v)))"

definition GetSelectedAvailableContainer :: "GroupsView \<Rightarrow> Container option" where
  "GetSelectedAvailableContainer v =
     (let containers = GetAvailableContainers v in
      if length containers = 0 \<or> cursor (availableContainersList v) \<ge> length containers
      then None
      else Some (containers ! cursor (availableContainersList v)))"

definition updateContainerLists :: "ext \<Rightarrow> GroupsView \<Rightarrow> GroupsView" where
  "updateContainerLists lib v =
     v\<lparr>containersInGroupList :=
         list_SetItems lib (map ContainerItemForGroup (GetContainersInGroup v))
           (containersInGroupList v),
       availableContainersList :=
         list_SetItems lib (map ContainerItemForGroup (GetAvailableContainers v))
           (availableContainersList v)\<rparr>"

definition SetAllContainers :: "ext \<Rightarrow> Container list \<Rightarrow> GroupsView \<Rightarrow> GroupsView" where
  "SetAllContainers lib containers v = updateContainerLists lib (v\<lparr>allContainers := containers\<rparr>)"

definition GroupsView_SetSize :: "int \<Rightarrow> int \<Rightarrow> GroupsView \<Rightarrow> GroupsView" where
  "GroupsView_SetSize w h v =
     v\<lparr>width := w, height := h,
       groupsList := list_SetSize w (h - 9) (groupsList v),
       containersInGroupList := list_SetSize w (h - 9) (containersInGroupList v),
       availableContainersList := list_SetSize w (h - 9) (availableContainersList v)\<rparr>"

definition SwitchTab :: "int \<Rightarrow> GroupsView \<Rightarrow> GroupsView" where
  "SwitchTab direction v =
     (let newTab = int_of_GroupsTabType (currentTab v) + direction;
          newTab' = (if newTab < 0 then int_of_GroupsTabType GroupsAvailableTab
                     else if newTab > int_of_GroupsTabType GroupsAvailableTab
                     then int_of_GroupsTabType GroupsListTab
                     else newTab)
      in v\<lparr>currentTab := GroupsTabType_of_int newTab'\<rparr>)"

definition GroupsView_IsFiltering :: "GroupsView \<Rightarrow> bool" where
  "GroupsView_IsFiltering v =
     (case currentTab v of
        GroupsListTab \<Rightarrow> filterState (groupsList v) = Filtering
      | GroupsContainersTab \<Rightarrow> filterState (containersInGroupList v) = Filtering
      | GroupsAvailableTab \<Rightarrow> filterState (availableContainersList v) = Filtering)"

text \<open>The last step of \<open>Update\<close>, and its step while filtering: the list of the current tab.\<close>

definition GroupsView_delegate :: "ext \<Rightarrow> Msg \<Rightarrow> GroupsView \<Rightarrow> GroupsView \<times> Cmd option" where
  "GroupsView_delegate lib msg v =
     (case currentTab v of
        GroupsListTab \<Rightarrow>
          (let (l, cmd) = list_Update lib msg (groupsList v) in (v\<lparr>groupsList := l\<rparr>, cmd))
      | GroupsContainersTab \<Rightarrow>
          (let (l, cmd) = list_Update lib msg (containersInGroupList v)
           in (v\<lparr>containersInGroupList := l\<rparr>, cmd))
      | GroupsAvailableTab \<Rightarrow>
          (let (l, cmd) = list_Update lib msg (availableContainersList v)
           in (v\<lparr>availableContainersList := l\<rparr>, cmd)))"

definition GroupsView_Update :: "ext \<Rightarrow> Msg \<Rightarrow> GroupsView \<Rightarrow> GroupsView \<times> Cmd option" where
  "GroupsView_Update lib msg v =
     (if GroupsView_IsFiltering v then GroupsView_delegate lib msg v
      else
        case msg of
          KeyMsg k \<Rightarrow>
            if k = ''a'' \<or> k = ''left'' then (SwitchTab (- 1) v, None)
            else if k = ''d'' \<or> k = ''right'' then (SwitchTab 1 v, None)
            else if k = ''enter'' \<and> currentTab v = GroupsListTab then
              (let v1 = v\<lparr>selectedGroup := GetSelectedGroup v\<rparr> in
               if selectedGroup v1 \<noteq> None
               then (updateContainerLists lib (v1\<lparr>currentTab := GroupsContainersTab\<rparr>), None)
               else (v1, None))
            else if k = ''esc'' \<and> currentTab v \<noteq> GroupsListTab then
              (v\<lparr>currentTab := GroupsListTab\<rparr>, None)
            else GroupsView_delegate lib msg v
        | _ \<Rightarrow> GroupsView_delegate lib msg v)"

section \<open>The networks view\<close>

text \<open>
  \<open>selectedNetwork\<close> is a pointer into the slice \<open>networks\<close>.  The only write to an
  element of that slice sets its \<open>Containers\<close>, in \<open>syncNetworkContainerCounts\<close>, which
  then points \<open>selectedNetwork\<close> to the first element with its ID; so the pointer is
  modelled by the value it points to, \<open>None\<close> when nil.
\<close>

record NetworksView =
  nv_currentTab :: NetworksTabType
  networks :: "Network list"
  nv_allContainers :: "Container list"
  selectedNetwork :: "Network option"
  networksList :: list_Model
  containersInNetworkList :: list_Model
  nv_availableContainersList :: list_Model
  nv_width :: int
  nv_height :: int

text \<open>The loop that looks for the first network with the ID of the selected one.\<close>

fun find_network :: "Network list \<Rightarrow> string \<Rightarrow> Network option" where
  "find_network [] nid = None"
| "find_network (n # ns) nid = (if Network.ID n = nid then Some n else find_network ns nid)"

definition network_containers :: "Container list \<Rightarrow> string \<Rightarrow> string list" where
  "network_containers cs netName =
     concat (map (\<lambda>c. map (\<lambda>_. Container.ID c)
                          (filter (\<lambda>n. n = netName) (Container.Networks c))) cs)"

definition syncNetworkContainerCounts :: "ext \<Rightarrow> NetworksView \<Rightarrow> NetworksView" where
  "syncNetworkContainerCounts lib v =
     (if length (networks v) = 0 \<or> length (nv_allContainers v) = 0 then v
      else
        let ns = map (\<lambda>n. n\<lparr>Containers := network_containers (nv_allContainers v) (Network.Name n)\<rparr>)
                     (networks v);
            v1 = v\<lparr>networks := ns,
                   networksList := list_SetItems lib (map NetworkItem ns) (networksList v)\<rparr>
        in case selectedNetwork v1 of
             None \<Rightarrow> v1
           | Some sel \<Rightarrow>
               (case find_network ns (Network.ID sel) of
                  None \<Rightarrow> v1
                | Some n \<Rightarrow> v1\<lparr>selectedNetwork := Some n\<rparr>))"

definition GetContainersInNetwork :: "NetworksView \<Rightarrow> Container list" where
  "GetContainersInNetwork v =
     (case selectedNetwork v of
        None \<Rightarrow> []
      | Some sel \<Rightarrow>
          filter (\<lambda>c. Network.Name sel \<in> set (Container.Networks c)) (nv_allContainers v))"

definition nv_GetAvailableContainers :: "NetworksView \<Rightarrow> Container list" where
  "nv_GetAvailableContainers v =
     (case selectedNetwork v of
        None \<Rightarrow> []
      | Some sel \<Rightarrow>
          filter (\<lambda>c. Network.Name sel \<notin> set (Container.Networks c)) (nv_allContainers v))"

definition nv_updateContainerLists :: "ext \<Rightarrow> NetworksView \<Rightarrow> NetworksView" where
  "nv_updateContainerLists lib v =
     v\<lparr>containersInNetworkList :=
         list_SetItems lib (map ContainerItemForNetwork (GetContainersInNetwork v))
           (containersInNetworkList v),
       nv_availableContainersList :=
         list_SetItems lib (map ContainerItemForNetwork (nv_GetAvailableContainers v))
           (nv_availableContainersList v)\<rparr>"

definition SetNetworks :: "ext \<Rightarrow> Network list \<Rightarrow> NetworksView \<Rightarrow> NetworksView" where
  "SetNetworks lib ns v =
     (let v1 = syncNetworkContainerCounts lib (v\<lparr>networks := ns\<rparr>);
          v2 = (if length (nv_allContainers v1) = 0
                then v1\<lparr>networksList := list_SetItems lib (map NetworkItem ns) (networksList v1)\<rparr>
                else v1)
      in case selectedNetwork v2 of
           None \<Rightarrow> v2
         | Some sel \<Rightarrow>
             (case find_network (networks v2) (Network.ID sel) of
                Some n \<Rightarrow> nv_updateContainerLists lib (v2\<lparr>selectedNetwork := Some n\<rparr>)
              | None \<Rightarrow> v2\<lparr>selectedNetwork := None\<rparr>))"

definition nv_SetAllContainers :: "ext \<Rightarrow> Container list \<Rightarrow> NetworksView \<Rightarrow> NetworksView" where
  "nv_SetAllContainers lib containers v =
     nv_updateContainerLists lib (syncNetworkContainerCounts lib (v\<lparr>nv_allContainers := containers\<rparr>))"

definition NetworksView_SetSize :: "int \<Rightarrow> int \<Rightarrow> NetworksView \<Rightarrow> NetworksView" where
  "NetworksView_SetSize w h v =
     v\<lparr>nv_width := w, nv_height := h,
       networksList := list_SetSize w (h - 9) (networksList v),
       containersInNetworkList := list_SetSize w (h - 9) (containersInNetworkList v),
       nv_availableContainersList := list_SetSize w (h - 9) (nv_availableContainersList v)\<rparr>"

definition GetSelectedNetwork :: "NetworksView \<Rightarrow> Network option" where
  "GetSelectedNetwork v =
     (if length (networks v) = 0 \<or> cursor (networksList v) \<ge> length (networks v) then None
      else Some (networks v ! cursor (networksList v)))"

definition GetSelectedInNetworkContainer :: "NetworksView \<Rightarrow> Container option" where
  "GetSelectedInNetworkContainer v =
     (let containers = GetContainersInNetwork v in
      if length containers = 0 \<or> cursor (containersInNetworkList v) \<ge> length containers
      then None
      else Some (containers ! cursor (containersInNetworkList v)))"

definition nv_GetSelectedAvailableContainer :: "NetworksView \<Rightarrow> Container option" where
  "nv_GetSelectedAvailableContainer v =
     (let containers = nv_GetAvailableContainers v in
      if length containers = 0 \<or> cursor (nv_availableContainersList v) \<ge> length containers
      then None
      else Some (containers ! cursor (nv_availableContainersList v)))"

definition nv_SwitchTab :: "int \<Rightarrow> NetworksView \<Rightarrow> NetworksView" where
  "nv_SwitchTab direction v =
     (let newTab = int_of_NetworksTabType (nv_currentTab v) + direction;
          newTab' = (if newTab < 0 then int_of_NetworksTabType NetworksAvailableTab
                     else if newTab > int_of_NetworksTabType NetworksAvailableTab
                     then int_of_NetworksTabType NetworksListTab
                     else newTab)
      in v\<lparr>nv_currentTab := NetworksTabType_of_int newTab'\<rparr>)"

definition NetworksView_IsFiltering :: "NetworksView \<Rightarrow> bool" where
  "NetworksView_IsFiltering v =
     (case nv_currentTab v of
        NetworksListTab \<Rightarrow> filterState (networksList v) = Filtering
      | NetworksContainersTab \<Rightarrow> filterState (containersInNetworkList v) = Filtering
      | NetworksAvailableTab \<Rightarrow> filterState (nv_availableContainersList v) = Filtering)"

definition NetworksView_delegate ::
  "ext \<Rightarrow> Msg \<Rightarrow> NetworksView \<Rightarrow> NetworksView \<times> Cmd option" where
  "NetworksView_delegate lib msg v =
     (case nv_currentTab v of
        NetworksListTab \<Rightarrow>
          (let (l, cmd) = list_Update lib msg (networksList v) in (v\<lparr>networksList := l\<rparr>, cmd))
      | NetworksContainersTab \<Rightarrow>
          (let (l, cmd) = list_Update lib msg (containersInNetworkList v)
           in (v\<lparr>containersInNetworkList := l\<rparr>, cmd))
      | NetworksAvailableTab \<Rightarrow>
          (let (l, cmd) = list_Update lib msg (nv_availableContainersList v)
           in (v\<lparr>nv_availableContainersList := l\<rparr>, cmd)))"

definition NetworksView_Update ::
  "ext \<Rightarrow> Msg \<Rightarrow> NetworksView \<Rightarrow> NetworksView \<times> Cmd option" where
  "NetworksView_Update lib msg v =
     (if NetworksView_IsFiltering v then NetworksView_delegate lib msg v
      else
        case msg of
          KeyMsg k \<Rightarrow>
            if k = ''a'' \<or> k = ''left'' then (nv_SwitchTab (- 1) v, None)
            else if k = ''d'' \<or> k = ''right'' then (nv_SwitchTab 1 v, None)
            else if k = ''enter'' \<and> nv_currentTab v = NetworksListTab then
              (let v1 = v\<lparr>selectedNetwork := GetSelectedNetwork v\<rparr> in
               if selectedNetwork v1 \<noteq> None
               then (nv_updateContainerLists lib (v1\<lparr>nv_currentTab := NetworksContainersTab\<rparr>),
                     None)
               else (v1, None))
            else if k = ''esc'' \<and> nv_currentTab v \<noteq> NetworksListTab then
              (v\<lparr>nv_currentTab := NetworksListTab\<rparr>, None)
            else NetworksView_delegate lib msg v
        | _ \<Rightarrow> NetworksView_delegate lib msg v)"

section \<open>The logs view and the stats view\<close>

record LogsView =
  lv_viewport :: viewport
  lv_lines :: "string list"
  lv_follow :: bool
  lv_maxLines :: nat
  lv_containerID :: string
  lv_containerName :: string
  lv_logsChan :: "chan option"
  lv_errorChan :: "chan option"
  lv_ready :: bool
  lv_width :: int
  lv_height :: int

definition NewLogsView :: LogsView where
  "NewLogsView =
     \<lparr>lv_viewport = \<lparr>content = [], position = AtTop, Width = 0, Height = 0\<rparr>,
      lv_lines = [], lv_follow = True, lv_maxLines = 1000, lv_containerID = [],
      lv_containerName = [], lv_logsChan = None, lv_errorChan = None, lv_ready = False,
      lv_width = 0, lv_height = 0\<rparr>"

definition LogsView_SetContainer :: "string \<Rightarrow> string \<Rightarrow> LogsView \<Rightarrow> LogsView" where
  "LogsView_SetContainer cid cname v =
     v\<lparr>lv_containerID := cid, lv_containerName := cname, lv_lines := [], lv_ready := False\<rparr>"

definition LogsView_StartStreaming :: "chan option \<Rightarrow> chan option \<Rightarrow> LogsView \<Rightarrow> LogsView" where
  "LogsView_StartStreaming logsChan errorChan v =
     v\<lparr>lv_logsChan := logsChan, lv_errorChan := errorChan, lv_ready := True\<rparr>"

definition LogsView_SetSize :: "int \<Rightarrow> int \<Rightarrow> LogsView \<Rightarrow> LogsView" where
  "LogsView_SetSize w h v =
     v\<lparr>lv_width := w, lv_height := h,
       lv_viewport := (lv_viewport v)\<lparr>Width := w - 4, Height := h - 3 - 4\<rparr>\<rparr>"

definition GotoBottom :: "viewport \<Rightarrow> viewport" where
  "GotoBottom vp = vp\<lparr>position := AtBottom\<rparr>"

definition GotoTop :: "viewport \<Rightarrow> viewport" where
  "GotoTop vp = vp\<lparr>position := AtTop\<rparr>"

text \<open>\<open>strings.Join(lines, "\n")\<close>; the line feed is the character 10.\<close>

fun join_lines :: "string list \<Rightarrow> string" where
  "join_lines [] = []"
| "join_lines [x] = x"
| "join_lines (x # y # ys) = x @ [CHR 0x0A] @ join_lines (y # ys)"

definition LogsView_Update :: "ext \<Rightarrow> Msg \<Rightarrow> LogsView \<Rightarrow> LogsView \<times> Cmd option" where
  "LogsView_Update lib msg v =
     (let to_viewport =
            (let (vp, cmd) = viewport_Update lib msg (lv_viewport v)
             in (v\<lparr>lv_viewport := vp\<rparr>, cmd))
      in case msg of
           KeyMsg k \<Rightarrow>
             if k = ''f'' then
               (let v1 = v\<lparr>lv_follow := \<not> lv_follow v\<rparr> in
                if lv_follow v1 then (v1\<lparr>lv_viewport := GotoBottom (lv_viewport v1)\<rparr>, None)
                else (v1, None))
             else if k = ''g'' then (v\<lparr>lv_viewport := GotoTop (lv_viewport v)\<rparr>, None)
             else if k = ''G'' then (v\<lparr>lv_viewport := GotoBottom (lv_viewport v)\<rparr>, None)
             else to_viewport
         | LogEntryMsg entry \<Rightarrow>
             (let ls = lv_lines v @ [Line entry];
                  ls' = (if length ls > lv_maxLines v then drop (length ls - lv_maxLines v) ls
                         else ls);
                  vp = (lv_viewport v)\<lparr>content := join_lines ls'\<rparr>;
                  vp' = (if lv_follow v then GotoBottom vp else vp)
              in (v\<lparr>lv_lines := ls', lv_viewport := vp'\<rparr>,
                  Some (ViewsWaitForLogEntry (lv_logsChan v) (lv_errorChan v))))
         | _ \<Rightarrow> to_viewport)"

record StatsView =
  sv_stats :: "ContainerStats option"
  sv_history :: "ContainerStats list"
  sv_maxHistory :: nat
  sv_containerID :: string
  sv_containerName :: string
  sv_statsChan :: "chan option"
  sv_errorChan :: "chan option"
  sv_ready :: bool
  sv_width :: int
  sv_height :: int

definition NewStatsView :: StatsView where
  "NewStatsView =
     \<lparr>sv_stats = None, sv_history = [], sv_maxHistory = 60, sv_containerID = [],
      sv_containerName = [], sv_statsChan = None, sv_errorChan = None, sv_ready = False,
      sv_width = 0, sv_height = 0\<rparr>"

definition StatsView_SetContainer :: "string \<Rightarrow> string \<Rightarrow> StatsView \<Rightarrow> StatsView" where
  "StatsView_SetContainer cid cname v =
     v\<lparr>sv_containerID := cid, sv_containerName := cname, sv_stats := None, sv_history := []\<rparr>"

definition StatsView_StartStreaming :: "chan option \<Rightarrow> chan option \<Rightarrow> StatsView \<Rightarrow> StatsView" where
  "StatsView_StartStreaming statsChan errorChan v =
     v\<lparr>sv_statsChan := statsChan, sv_errorChan := errorChan, sv_ready := True\<rparr>"

definition StatsView_SetSize :: "int \<Rightarrow> int \<Rightarrow> StatsView \<Rightarrow> StatsView" where
  "StatsView_SetSize w h v = v\<lparr>sv_width := w, sv_height := h\<rparr>"

definition StatsView_Update :: "Msg \<Rightarrow> StatsView \<Rightarrow> StatsView \<times> Cmd option" where
  "StatsView_Update msg v =
     (case msg of
        ContainerStatsMsg s \<Rightarrow>
          (let h = sv_history v @ [s];
               h' = (if length h > sv_maxHistory v then tl h else h)
           in (v\<lparr>sv_stats := Some s, sv_history := h'\<rparr>,
               Some (ViewsWaitForStats (sv_statsChan v) (sv_errorChan v))))
      | _ \<Rightarrow> (v, None))"

section \<open>The modal and the sidebar: \<open>internal/ui/components\<close>\<close>

datatype ModalType = ModalConfirm | ModalForm

record Modal =
  visible :: bool
  modalType :: ModalType
  title :: string
  message :: string
  confirmText :: string
  cancelText :: string
  confirmed :: bool
  modal_width :: int
  modal_height :: int
  inputs :: "textinput list"
  focusIndex :: int
  requiredFields :: "bool list"

definition NewConfirmModal :: "string \<Rightarrow> string \<Rightarrow> Modal" where
  "NewConfirmModal t msg =
     \<lparr>visible = True, modalType = ModalConfirm, title = t, message = msg,
      confirmText = ''Yes'', cancelText = ''No'', confirmed = False,
      modal_width = 0, modal_height = 0, inputs = [], focusIndex = 0, requiredFields = []\<rparr>"

text \<open>Every field of \<open>NewFormModal\<close> is required; the first input has the focus.\<close>

definition NewFormModal :: "string \<Rightarrow> string list \<Rightarrow> Modal" where
  "NewFormModal t fieldLabels =
     \<lparr>visible = True, modalType = ModalForm, title = t, message = [],
      confirmText = ''Create'', cancelText = ''Cancel'', confirmed = False,
      modal_width = 0, modal_height = 0,
      inputs = map (\<lambda>i. \<lparr>Value = [], focus = (i = 0)\<rparr>) [0 ..< length fieldLabels],
      focusIndex = 0,
      requiredFields = map (\<lambda>_. True) fieldLabels\<rparr>"

definition Modal_SetSize :: "int \<Rightarrow> int \<Rightarrow> Modal \<Rightarrow> Modal" where
  "Modal_SetSize w h m = m\<lparr>modal_width := w, modal_height := h\<rparr>"

definition GetInputValues :: "Modal \<Rightarrow> string list" where
  "GetInputValues m = map Value (inputs m)"

text \<open>
  The loop of the \<open>enter\<close> case: a required field that is empty ends it; reading
  \<open>requiredFields\<close> beyond its length panics.
\<close>

fun allFilled :: "textinput list \<Rightarrow> bool list \<Rightarrow> bool outcome" where
  "allFilled [] rs = Returned True"
| "allFilled (i # is) [] = Panicked"
| "allFilled (i # is) (r # rs) =
     (if r \<and> Value i = [] then Returned False else allFilled is rs)"

definition confirm_modal :: "Modal \<Rightarrow> Modal" where
  "confirm_modal m = m\<lparr>confirmed := True, visible := False\<rparr>"

definition cancel_modal :: "Modal \<Rightarrow> Modal" where
  "cancel_modal m = m\<lparr>confirmed := False, visible := False\<rparr>"

text \<open>The end of \<open>Modal.Update\<close>: the input that has the focus gets the message.\<close>

definition update_active_input :: "ext \<Rightarrow> Msg \<Rightarrow> Modal \<Rightarrow> (Modal \<times> Cmd option) outcome" where
  "update_active_input lib msg m =
     (if modalType m = ModalForm \<and> focusIndex m < int (length (inputs m)) then
        (if focusIndex m < 0 then Panicked
         else let (ti, cmd) = textinput_Update lib msg (inputs m ! nat (focusIndex m))
              in Returned (m\<lparr>inputs := (inputs m)[nat (focusIndex m) := ti]\<rparr>, cmd))
      else Returned (m, None))"

definition move_focus :: "string \<Rightarrow> Modal \<Rightarrow> Modal" where
  "move_focus k m =
     (let fi = (if k = ''tab'' \<or> k = ''down''
                then (if focusIndex m + 1 \<ge> int (length (inputs m)) then 0 else focusIndex m + 1)
                else (if focusIndex m - 1 < 0 then int (length (inputs m)) - 1
                      else focusIndex m - 1))
      in m\<lparr>focusIndex := fi,
           inputs := map (\<lambda>(i, ti). ti\<lparr>focus := (int i = fi)\<rparr>)
                         (zip [0 ..< length (inputs m)] (inputs m))\<rparr>)"

definition Modal_Update :: "ext \<Rightarrow> Msg \<Rightarrow> Modal \<Rightarrow> (Modal \<times> Cmd option) outcome" where
  "Modal_Update lib msg m =
     (if \<not> visible m then Returned (m, None)
      else
        case msg of
          KeyMsg k \<Rightarrow>
            if k = ''enter'' then
              (if modalType m = ModalConfirm then Returned (confirm_modal m, None)
               else (case allFilled (inputs m) (requiredFields m) of
                       Panicked \<Rightarrow> Panicked
                     | Returned True \<Rightarrow> Returned (confirm_modal m, None)
                     | Returned False \<Rightarrow> update_active_input lib msg m))
            else if k = ''y'' then
              (if modalType m = ModalConfirm then Returned (confirm_modal m, None)
               else update_active_input lib msg m)
            else if k = ''esc'' then Returned (cancel_modal m, None)
            else if k = ''n'' then
              (if modalType m = ModalConfirm then Returned (cancel_modal m, None)
               else update_active_input lib msg m)
            else if k = ''tab'' \<or> k = ''shift+tab'' \<or> k = ''up'' \<or> k = ''down'' then
              (if modalType m = ModalForm then update_active_input lib msg (move_focus k m)
               else update_active_input lib msg m)
            else update_active_input lib msg m
        | _ \<Rightarrow> update_active_input lib msg m)"

record Sidebar =
  sidebar_currentView :: ViewType
  sidebar_width :: int
  sidebar_height :: int

section \<open>The application model: \<open>internal/app/app.go\<close>\<close>

record App =
  state :: AppState
  app_width :: int
  app_height :: int
  ready :: bool
  docker :: "Client option"
  groupManager :: "GroupManager option"
  sidebar :: Sidebar
  header_width :: int
  footer_width :: int
  modal :: "Modal option"
  containersView :: ContainersView
  imagesView :: ImagesView
  groupsView :: GroupsView
  volumesView :: VolumesView
  composeView :: ComposeView
  networksView :: NetworksView
  logsView :: LogsView
  statsView :: StatsView
  envVarsView :: EnvVarsView
  aboutView :: AboutView
  statusMessage :: string
  errorMessage :: string
  pendingDelete :: string
  pendingDeleteType :: string
  pendingEnvContainer :: "ContainerFullConfig option"

definition Init :: Cmd where
  "Init = Batch [Some EnterAltScreen, Some initDockerClient, Some initGroupManager,
                 Some tickRefresh]"

subsection \<open>Pieces of \<open>Update\<close>\<close>

text \<open>\<open>a.state.CurrentView = v\<close> followed by \<open>a.sidebar.SetCurrentView(v)\<close>.\<close>

definition show_view :: "ViewType \<Rightarrow> App \<Rightarrow> App" where
  "show_view v a =
     a\<lparr>state := (state a)\<lparr>CurrentView := v\<rparr>,
       sidebar := (sidebar a)\<lparr>sidebar_currentView := v\<rparr>\<rparr>"

text \<open>The same after \<open>a.state.PreviousView = a.state.CurrentView\<close>.\<close>

definition switch_view :: "ViewType \<Rightarrow> App \<Rightarrow> App" where
  "switch_view v a =
     show_view v (a\<lparr>state := (state a)\<lparr>PreviousView := CurrentView (state a)\<rparr>\<rparr>)"

text \<open>The condition under which a key goes to the view without command handling.\<close>

definition view_is_filtering :: "App \<Rightarrow> bool" where
  "view_is_filtering a \<longleftrightarrow>
     (CurrentView (state a) = ViewContainers \<and> containersView_IsFiltering (containersView a)) \<or>
     (CurrentView (state a) = ViewImages \<and> imagesView_IsFiltering (imagesView a)) \<or>
     (CurrentView (state a) = ViewGroups \<and> GroupsView_IsFiltering (groupsView a)) \<or>
     (CurrentView (state a) = ViewVolumes \<and> volumesView_IsFiltering (volumesView a)) \<or>
     (CurrentView (state a) = ViewCompose \<and> composeView_IsFiltering (composeView a)) \<or>
     (CurrentView (state a) = ViewNetworks \<and> NetworksView_IsFiltering (networksView a))"

text \<open>
  The end of \<open>Update\<close>, ``Delegate to current view'': the switch has no case for the
  about view.
\<close>

definition delegate :: "ext \<Rightarrow> Msg \<Rightarrow> App \<Rightarrow> App \<times> Cmd option" where
  "delegate lib msg a =
     (case CurrentView (state a) of
        ViewContainers \<Rightarrow>
          (let (v, cmd) = containersView_Update lib msg (containersView a)
           in (a\<lparr>containersView := v\<rparr>, cmd))
      | ViewImages \<Rightarrow>
          (let (v, cmd) = imagesView_Update lib msg (imagesView a) in (a\<lparr>imagesView := v\<rparr>, cmd))
      | ViewGroups \<Rightarrow>
          (let (v, cmd) = GroupsView_Update lib msg (groupsView a) in (a\<lparr>groupsView := v\<rparr>, cmd))
      | ViewVolumes \<Rightarrow>
          (let (v, cmd) = volumesView_Update lib msg (volumesView a)
           in (a\<lparr>volumesView := v\<rparr>, cmd))
      | ViewCompose \<Rightarrow>
          (let (v, cmd) = composeView_Update lib msg (composeView a)
           in (a\<lparr>composeView := v\<rparr>, cmd))
      | ViewNetworks \<Rightarrow>
          (let (v, cmd) = NetworksView_Update lib msg (networksView a)
           in (a\<lparr>networksView := v\<rparr>, cmd))
      | ViewLogs \<Rightarrow>
          (let (v, cmd) = LogsView_Update lib msg (logsView a) in (a\<lparr>logsView := v\<rparr>, cmd))
      | ViewStats \<Rightarrow>
          (let (v, cmd) = StatsView_Update msg (statsView a) in (a\<lparr>statsView := v\<rparr>, cmd))
      | ViewEnvVars \<Rightarrow>
          (let (v, cmd) = envVarsView_Update lib msg (envVarsView a)
           in (a\<lparr>envVarsView := v\<rparr>, cmd))
      | ViewAbout \<Rightarrow> (a, None))"

text \<open>The filter branch has a case for the six views of \<open>view_is_filtering\<close> only.\<close>

definition filter_delegate :: "ext \<Rightarrow> Msg \<Rightarrow> App \<Rightarrow> App \<times> Cmd option" where
  "filter_delegate lib msg a =
     (if CurrentView (state a) \<in> {ViewContainers, ViewImages, ViewGroups, ViewVolumes,
                                    ViewCompose, ViewNetworks}
      then delegate lib msg a else (a, None))"

definition cycleTabForward :: "App \<Rightarrow> App \<times> Cmd option" where
  "cycleTabForward a0 =
     (let a = a0\<lparr>state := (state a0)\<lparr>PreviousView := CurrentView (state a0)\<rparr>\<rparr> in
      case CurrentView (state a) of
        ViewContainers \<Rightarrow> (show_view ViewImages a, Some (fetchImages (docker a)))
      | ViewImages \<Rightarrow> (show_view ViewGroups a, Some (loadGroups (groupManager a)))
      | ViewGroups \<Rightarrow>
          (show_view ViewVolumes a,
           Some (Batch [Some (fetchVolumes (docker a)), Some (fetchContainers (docker a))]))
      | ViewVolumes \<Rightarrow> (show_view ViewCompose a, Some (fetchComposeProjects (docker a)))
      | ViewCompose \<Rightarrow>
          (show_view ViewNetworks a,
           Some (Batch [Some (fetchNetworks (docker a)), Some (fetchContainers (docker a))]))
      | ViewNetworks \<Rightarrow> (show_view ViewAbout a, None)
      | ViewAbout \<Rightarrow> (show_view ViewContainers a, Some (fetchContainers (docker a)))
      | _ \<Rightarrow> (a, None))"

definition cycleTabBackward :: "App \<Rightarrow> App \<times> Cmd option" where
  "cycleTabBackward a0 =
     (let a = a0\<lparr>state := (state a0)\<lparr>PreviousView := CurrentView (state a0)\<rparr>\<rparr> in
      case CurrentView (state a) of
        ViewContainers \<Rightarrow> (show_view ViewAbout a, None)
      | ViewAbout \<Rightarrow>
          (show_view ViewNetworks a,
           Some (Batch [Some (fetchNetworks (docker a)), Some (fetchContainers (docker a))]))
      | ViewImages \<Rightarrow> (show_view ViewContainers a, Some (fetchContainers (docker a)))
      | ViewGroups \<Rightarrow> (show_view ViewImages a, Some (fetchImages (docker a)))
      | ViewVolumes \<Rightarrow> (show_view ViewGroups a, Some (loadGroups (groupManager a)))
      | ViewCompose \<Rightarrow>
          (show_view ViewVolumes a,
           Some (Batch [Some (fetchVolumes (docker a)), Some (fetchContainers (docker a))]))
      | ViewNetworks \<Rightarrow> (show_view ViewCompose a, Some (fetchComposeProjects (docker a)))
      | _ \<Rightarrow> (a, None))"

text \<open>
  \<open>handleModalConfirmed\<close>: the deferred function sets \<open>a.modal\<close> to nil on every path;
  the pending fields are cleared only on the paths that issue no command.  The modal is
  not nil when the method is called.
\<close>

definition handleModalConfirmed :: "Modal \<Rightarrow> App \<Rightarrow> App \<times> Cmd option" where
  "handleModalConfirmed m a =
     (let done = a\<lparr>modal := None\<rparr>;
          t = pendingDeleteType a;
          values = GetInputValues m;
          nothing = (done\<lparr>pendingDelete := [], pendingDeleteType := []\<rparr>, None)
      in if t = ''container'' then (done, Some (removeContainer (docker a) (pendingDelete a)))
         else if t = ''image'' then (done, Some (removeImage (docker a) (pendingDelete a)))
         else if t = ''group'' then (done, Some (deleteGroup (groupManager a) (pendingDelete a)))
         else if t = ''remove_from_group'' then
           (case selectedGroup (groupsView a) of
              Some g \<Rightarrow>
                (done, Some (removeContainerFromGroup (groupManager a) (Group.ID g)
                               (pendingDelete a)))
            | None \<Rightarrow> nothing)
         else if t = ''create_group'' then
           (if length values \<ge> 2
            then (done, Some (createGroup (groupManager a) (values ! 0) (values ! 1) []))
            else nothing)
         else if t = ''volume'' then (done, Some (removeVolume (docker a) (pendingDelete a)))
         else if t = ''prune_volumes'' then (done, Some (pruneVolumes (docker a)))
         else if t = ''pull_image'' then
           (if length values \<ge> 1 \<and> values ! 0 \<noteq> []
            then (done, Some (pullImage (docker a) (values ! 0)))
            else nothing)
         else if t = ''create_network'' then
           (if length values \<ge> 1 \<and> values ! 0 \<noteq> []
            then (done, Some (createNetwork (docker a) (values ! 0)
                                (if length values \<ge> 2 \<and> values ! 1 \<noteq> [] then values ! 1
                                 else ''bridge'')))
            else nothing)
         else if t = ''network'' then (done, Some (removeNetwork (docker a) (pendingDelete a)))
         else if t = ''disconnect_from_network'' then
           (case selectedNetwork (networksView a) of
              Some n \<Rightarrow>
                (done, Some (disconnectContainerFromNetwork (docker a) (Network.ID n)
                               (pendingDelete a)))
            | None \<Rightarrow> nothing)
         else nothing)"

text \<open>The key goes to the visible modal, \<open>m\<close>.\<close>

definition modal_key :: "ext \<Rightarrow> Msg \<Rightarrow> Modal \<Rightarrow> App \<Rightarrow> (App \<times> Cmd option) outcome" where
  "modal_key lib msg m a =
     (case Modal_Update lib msg m of
        Panicked \<Rightarrow> Panicked
      | Returned (m', cmd) \<Rightarrow>
          if \<not> visible m' then
            (if confirmed m' then Returned (handleModalConfirmed m' (a\<lparr>modal := Some m'\<rparr>))
             else Returned (a\<lparr>modal := None, pendingDelete := [], pendingDeleteType := []\<rparr>, cmd))
          else Returned (a\<lparr>modal := Some m'\<rparr>, cmd))"

text \<open>
  A modal is opened: \<open>a.modal = m\<close>, \<open>a.modal.SetSize(a.width, a.height)\<close>, and the
  pending fields.
\<close>

definition open_modal :: "Modal \<Rightarrow> string option \<Rightarrow> string \<Rightarrow> App \<Rightarrow> App" where
  "open_modal m pending kind a =
     (let a1 = a\<lparr>modal := Some (Modal_SetSize (app_width a) (app_height a) m)\<rparr>;
          a2 = (case pending of None \<Rightarrow> a1 | Some p \<Rightarrow> a1\<lparr>pendingDelete := p\<rparr>)
      in a2\<lparr>pendingDeleteType := kind\<rparr>)"

text \<open>\<open>'%s'\<close> in a format string.\<close>

definition quoted :: "string \<Rightarrow> string" where
  "quoted s = [CHR 0x27] @ s @ [CHR 0x27]"

definition confirm_delete_container :: "Container \<Rightarrow> App \<Rightarrow> App" where
  "confirm_delete_container c a =
     open_modal (NewConfirmModal ''Delete Container''
                   (''Are you sure you want to remove container '' @ quoted (Container.Name c)
                      @ ''?''))
       (Some (Container.ID c)) ''container'' a"

text \<open>
  The container on which the keys \<open>l\<close>, \<open>t\<close>, \<open>e\<close> and \<open>v\<close> act: the four cases of the
  source are the same for these keys.  \<open>None\<close>: no case applies, or the case has no
  selected container.
\<close>

definition detail_container :: "App \<Rightarrow> Container option" where
  "detail_container a =
     (if CurrentView (state a) = ViewContainers
      then containersView_GetSelectedContainer (containersView a)
      else if CurrentView (state a) = ViewGroups
              \<and> currentTab (groupsView a) = GroupsContainersTab
      then GetSelectedInGroupContainer (groupsView a)
      else if CurrentView (state a) = ViewCompose
              \<and> (composeView_IsViewingServices (composeView a)
                   \<or> composeView_IsViewingContainers (composeView a))
      then composeView_GetSelectedContainer (composeView a)
      else if CurrentView (state a) = ViewNetworks
              \<and> nv_currentTab (networksView a) = NetworksContainersTab
      then GetSelectedInNetworkContainer (networksView a)
      else None)"

text \<open>
  The keys \<open>r\<close>, \<open>s\<close> and \<open>x\<close>: the command for one container, for a group (not for
  \<open>r\<close>) or for a compose project.
\<close>

definition container_operation ::
  "(Client option \<Rightarrow> string \<Rightarrow> Cmd) \<Rightarrow> (string \<Rightarrow> Cmd) option \<Rightarrow> (Client option \<Rightarrow> string \<Rightarrow> Cmd)
     \<Rightarrow> App \<Rightarrow> Cmd option" where
  "container_operation one grp project a =
     (if CurrentView (state a) = ViewContainers then
        map_option (\<lambda>c. one (docker a) (Container.ID c))
          (containersView_GetSelectedContainer (containersView a))
      else if grp \<noteq> None \<and> CurrentView (state a) = ViewGroups
              \<and> currentTab (groupsView a) = GroupsListTab then
        map_option (\<lambda>g. the grp (Group.ID g)) (GetSelectedGroup (groupsView a))
      else if CurrentView (state a) = ViewGroups
              \<and> currentTab (groupsView a) = GroupsContainersTab then
        map_option (\<lambda>c. one (docker a) (Container.ID c)) (GetSelectedInGroupContainer (groupsView a))
      else if CurrentView (state a) = ViewCompose then
        (if composeView_IsViewingServices (composeView a)
            \<or> composeView_IsViewingContainers (composeView a)
         then map_option (\<lambda>c. one (docker a) (Container.ID c))
                (composeView_GetSelectedContainer (composeView a))
         else map_option (\<lambda>p. project (docker a) (ComposeProject.Name p))
                (composeView_GetSelectedProject (composeView a)))
      else if CurrentView (state a) = ViewNetworks
              \<and> nv_currentTab (networksView a) = NetworksContainersTab then
        map_option (\<lambda>c. one (docker a) (Container.ID c))
          (GetSelectedInNetworkContainer (networksView a))
      else None)"

definition GetPrimaryTag :: "Image \<Rightarrow> string" where
  "GetPrimaryTag i = (if length (RepoTags i) > 0 then RepoTags i ! 0 else ''<none>'')"

subsection \<open>The global key bindings\<close>

text \<open>
  Each case of the switch on \<open>msg.String()\<close> is a function of its own.  \<open>Some r\<close>: the
  case returns \<open>r\<close>; \<open>None\<close>: the case falls out of the switch, to the delegation at the
  end of \<open>Update\<close>.
\<close>

type_synonym key_result = "(App \<times> Cmd option) outcome option"

definition key_quit :: "App \<Rightarrow> key_result" where
  "key_quit a =
     (if CurrentView (state a) = ViewLogs \<or> CurrentView (state a) = ViewStats
         \<or> CurrentView (state a) = ViewAbout
      then Some (Returned (show_view ViewContainers a, None))
      else Some (Returned
             (case docker a of None \<Rightarrow> a | Some c \<Rightarrow> a\<lparr>docker := Some (c\<lparr>closed := True\<rparr>)\<rparr>,
              Some Quit)))"

definition key_help :: "App \<Rightarrow> key_result" where
  "key_help a = Some (Returned (switch_view ViewAbout a, None))"

definition key_esc :: "ext \<Rightarrow> Msg \<Rightarrow> App \<Rightarrow> key_result" where
  "key_esc lib msg a =
     (if CurrentView (state a) = ViewAbout
      then Some (Returned (show_view (PreviousView (state a)) a, None))
      else if CurrentView (state a) = ViewEnvVars then
        (if envVarsView_IsEditing (envVarsView a)
         then (let (v, cmd) = envVarsView_Update lib msg (envVarsView a)
               in Some (Returned (a\<lparr>envVarsView := v\<rparr>, cmd)))
         else Some (Returned (show_view (PreviousView (state a)) (a\<lparr>pendingEnvContainer := None\<rparr>),
                              None)))
      else if CurrentView (state a) = ViewCompose
              \<and> (composeView_IsViewingServices (composeView a)
                   \<or> composeView_IsViewingContainers (composeView a))
      then (let (v, cmd) = composeView_Update lib msg (composeView a)
            in Some (Returned (a\<lparr>composeView := v\<rparr>, cmd)))
      else if CurrentView (state a) \<noteq> ViewContainers
      then Some (Returned (switch_view ViewContainers a, None))
      else None)"

definition key_digit :: "string \<Rightarrow> App \<Rightarrow> key_result" where
  "key_digit k a =
     (if k = ''1'' then Some (Returned (switch_view ViewContainers a, None))
      else if k = ''2'' then
        Some (Returned (switch_view ViewImages a, Some (Batch [Some (fetchImages (docker a))])))
      else if k = ''3'' then
        Some (Returned (switch_view ViewGroups a, Some (loadGroups (groupManager a))))
      else if k = ''4'' then
        Some (Returned (switch_view ViewVolumes a,
          Some (Batch [Some (fetchVolumes (docker a)), Some (fetchContainers (docker a))])))
      else if k = ''5'' then
        Some (Returned (switch_view ViewCompose a, Some (fetchComposeProjects (docker a))))
      else if k = ''6'' then
        Some (Returned (switch_view ViewNetworks a,
          Some (Batch [Some (fetchNetworks (docker a)), Some (fetchContainers (docker a))])))
      else if k = ''7'' then Some (Returned (switch_view ViewAbout a, None))
      else None)"

definition in_main_view :: "App \<Rightarrow> bool" where
  "in_main_view a \<longleftrightarrow>
     CurrentView (state a) = ViewContainers \<or> CurrentView (state a) = ViewImages \<or>
     CurrentView (state a) = ViewGroups \<or> CurrentView (state a) = ViewVolumes \<or>
     CurrentView (state a) = ViewCompose \<or> CurrentView (state a) = ViewNetworks \<or>
     CurrentView (state a) = ViewAbout"

definition key_cycle :: "bool \<Rightarrow> App \<Rightarrow> key_result" where
  "key_cycle forward a =
     (if in_main_view a
      then Some (Returned (if forward then cycleTabForward a else cycleTabBackward a))
      else None)"

definition key_n :: "App \<Rightarrow> key_result" where
  "key_n a =
     (if CurrentView (state a) = ViewGroups \<and> currentTab (groupsView a) = GroupsListTab
      then Some (Returned
             (open_modal (NewFormModal ''Create New Group'' [''Name'', ''Description''])
                None ''create_group'' a, None))
      else if CurrentView (state a) = ViewNetworks
              \<and> nv_currentTab (networksView a) = NetworksListTab
      then Some (Returned
             (open_modal (NewFormModal ''Create New Network''
                            [''Name'', ''Driver (default: bridge)''])
                None ''create_network'' a, None))
      else None)"

definition key_enter :: "App \<Rightarrow> key_result" where
  "key_enter a =
     (if CurrentView (state a) = ViewGroups \<and> currentTab (groupsView a) = GroupsAvailableTab
      then
        (case (GetSelectedAvailableContainer (groupsView a), selectedGroup (groupsView a)) of
           (Some c, Some g) \<Rightarrow>
             Some (Returned (a, Some (addContainerToGroup (groupManager a) (Group.ID g)
                                        (Container.ID c))))
         | _ \<Rightarrow> Some (Returned (a, None)))
      else if CurrentView (state a) = ViewNetworks
              \<and> nv_currentTab (networksView a) = NetworksAvailableTab
      then
        (case (nv_GetSelectedAvailableContainer (networksView a),
               selectedNetwork (networksView a)) of
           (Some c, Some n) \<Rightarrow>
             if \<not> IsSystemNetwork n
             then Some (Returned (a, Some (connectContainerToNetwork (docker a) (Network.ID n)
                                             (Container.ID c))))
             else Some (Returned (a, None))
         | _ \<Rightarrow> Some (Returned (a, None)))
      else None)"

definition key_u :: "App \<Rightarrow> key_result" where
  "key_u a =
     (if CurrentView (state a) = ViewGroups \<and> currentTab (groupsView a) = GroupsContainersTab
      then
        (case (GetSelectedInGroupContainer (groupsView a), selectedGroup (groupsView a)) of
           (Some c, Some g) \<Rightarrow>
             Some (Returned
               (open_modal (NewConfirmModal ''Remove from Group''
                              (''Remove '' @ quoted (Container.Name c) @ '' from group ''
                                 @ quoted (Group.Name g) @ ''?''))
                  (Some (Container.ID c)) ''remove_from_group'' a, None))
         | _ \<Rightarrow> Some (Returned (a, None)))
      else if CurrentView (state a) = ViewNetworks
              \<and> nv_currentTab (networksView a) = NetworksContainersTab
      then
        (case (GetSelectedInNetworkContainer (networksView a),
               selectedNetwork (networksView a)) of
           (Some c, Some n) \<Rightarrow>
             Some (Returned
               (open_modal (NewConfirmModal ''Disconnect from Network''
                              (''Disconnect '' @ quoted (Container.Name c) @ '' from network ''
                                 @ quoted (Network.Name n) @ ''?''))
                  (Some (Container.ID c)) ''disconnect_from_network'' a, None))
         | _ \<Rightarrow> Some (Returned (a, None)))
      else None)"

definition key_operation ::
  "(Client option \<Rightarrow> string \<Rightarrow> Cmd) \<Rightarrow> (string \<Rightarrow> Cmd) option \<Rightarrow> (Client option \<Rightarrow> string \<Rightarrow> Cmd)
     \<Rightarrow> App \<Rightarrow> key_result" where
  "key_operation one grp project a =
     map_option (\<lambda>cmd. Returned (a, Some cmd)) (container_operation one grp project a)"

text \<open>
  \<open>startLogStreaming\<close> and \<open>startStatsStreaming\<close> call \<open>SetContainer\<close> of the view before
  they return the command.
\<close>

definition key_l :: "App \<Rightarrow> key_result" where
  "key_l a =
     map_option
       (\<lambda>c. Returned
          (a\<lparr>state := (state a)\<lparr>PreviousView := CurrentView (state a), CurrentView := ViewLogs,
                                 SelectedContainer := Some c\<rparr>,
             logsView := LogsView_SetContainer (Container.ID c) (Container.Name c) (logsView a)\<rparr>,
           Some (startLogStreaming (docker a) c)))
       (detail_container a)"

definition key_t :: "App \<Rightarrow> key_result" where
  "key_t a =
     map_option
       (\<lambda>c. Returned
          (a\<lparr>state := (state a)\<lparr>PreviousView := CurrentView (state a), CurrentView := ViewStats,
                                 SelectedContainer := Some c\<rparr>,
             statsView := StatsView_SetContainer (Container.ID c) (Container.Name c)
                            (statsView a)\<rparr>,
           Some (startStatsStreaming (docker a) c)))
       (detail_container a)"

definition key_e :: "App \<Rightarrow> key_result" where
  "key_e a =
     map_option (\<lambda>c. Returned (a, Some (execShell (Container.ID c) (Container.Name c))))
       (detail_container a)"

definition key_v :: "App \<Rightarrow> key_result" where
  "key_v a =
     map_option (\<lambda>c. Returned (a, Some (loadContainerConfig (docker a) (Container.ID c))))
       (detail_container a)"

text \<open>\<open>a.state.SelectedContainer.ID\<close> panics when no container is selected.\<close>

definition key_ctrl_s :: "App \<Rightarrow> key_result" where
  "key_ctrl_s a =
     (if CurrentView (state a) = ViewEnvVars \<and> envVarsView_IsModified (envVarsView a) then
        (case pendingEnvContainer a of
           None \<Rightarrow> None
         | Some cfg \<Rightarrow>
             (let cfg' = cfg\<lparr>Env := envVarsView_GetEnvVars (envVarsView a)\<rparr>;
                  a' = a\<lparr>pendingEnvContainer := Some cfg'\<rparr>
              in case SelectedContainer (state a) of
                   None \<Rightarrow> Some Panicked
                 | Some c \<Rightarrow>
                     Some (Returned (a', Some (recreateContainer (docker a) (Container.ID c)
                                                 (Some cfg'))))))
      else None)"

definition key_d :: "App \<Rightarrow> key_result" where
  "key_d a =
     (if CurrentView (state a) = ViewContainers then
        map_option (\<lambda>c. Returned (confirm_delete_container c a, None))
          (containersView_GetSelectedContainer (containersView a))
      else if CurrentView (state a) = ViewImages then
        map_option
          (\<lambda>i. Returned
             (open_modal (NewConfirmModal ''Delete Image''
                            (''Are you sure you want to remove image '' @ quoted (GetPrimaryTag i)
                               @ ''?''))
                (Some (Image.ID i)) ''image'' a, None))
          (imagesView_GetSelectedImage (imagesView a))
      else if CurrentView (state a) = ViewGroups \<and> currentTab (groupsView a) = GroupsListTab then
        map_option
          (\<lambda>g. Returned
             (open_modal (NewConfirmModal ''Delete Group''
                            (''Are you sure you want to delete group '' @ quoted (Group.Name g)
                               @ ''?''))
                (Some (Group.ID g)) ''group'' a, None))
          (GetSelectedGroup (groupsView a))
      else if CurrentView (state a) = ViewGroups
              \<and> currentTab (groupsView a) = GroupsContainersTab then
        map_option (\<lambda>c. Returned (confirm_delete_container c a, None))
          (GetSelectedInGroupContainer (groupsView a))
      else if CurrentView (state a) = ViewVolumes then
        map_option
          (\<lambda>v. Returned
             (open_modal (NewConfirmModal ''Delete Volume''
                            (''Are you sure you want to remove volume '' @ quoted (Volume.Name v)
                               @ ''?''))
                (Some (Volume.Name v)) ''volume'' a, None))
          (volumesView_GetSelectedVolume (volumesView a))
      else if CurrentView (state a) = ViewCompose
              \<and> composeView_IsViewingContainers (composeView a) then
        map_option (\<lambda>c. Returned (confirm_delete_container c a, None))
          (composeView_GetSelectedContainer (composeView a))
      else if CurrentView (state a) = ViewNetworks
              \<and> nv_currentTab (networksView a) = NetworksContainersTab then
        map_option (\<lambda>c. Returned (confirm_delete_container c a, None))
          (GetSelectedInNetworkContainer (networksView a))
      else if CurrentView (state a) = ViewNetworks
              \<and> nv_currentTab (networksView a) = NetworksListTab then
        map_option
          (\<lambda>n. if IsSystemNetwork n
                then Returned (a\<lparr>errorMessage := ''Cannot delete system network''\<rparr>,
                               Some (clearStatus 2))
                else Returned
                  (open_modal (NewConfirmModal ''Delete Network''
                                 (''Are you sure you want to remove network ''
                                    @ quoted (Network.Name n) @ ''?''))
                     (Some (Network.ID n)) ''network'' a, None))
          (GetSelectedNetwork (networksView a))
      else None)"

definition key_p :: "App \<Rightarrow> key_result" where
  "key_p a =
     (if CurrentView (state a) = ViewImages
      then Some (Returned
             (open_modal (NewFormModal ''Pull Image'' [''Image Name (e.g. nginx:latest)''])
                None ''pull_image'' a, None))
      else if CurrentView (state a) = ViewVolumes
      then Some (Returned
             (open_modal (NewConfirmModal ''Prune Unused Volumes''
                            ''Remove all volumes not used by at least one container?'')
                None ''prune_volumes'' a, None))
      else None)"

definition global_keys :: "ext \<Rightarrow> string \<Rightarrow> App \<Rightarrow> key_result" where
  "global_keys lib k a =
     (if k = ''ctrl+c'' \<or> k = ''q'' then key_quit a
      else if k = ''?'' then key_help a
      else if k = ''esc'' then key_esc lib (KeyMsg k) a
      else if k \<in> {''1'', ''2'', ''3'', ''4'', ''5'', ''6'', ''7''} then key_digit k a
      else if k = ''tab'' \<or> k = ''right'' then key_cycle True a
      else if k = ''shift+tab'' \<or> k = ''left'' then key_cycle False a
      else if k = ''n'' then key_n a
      else if k = ''enter'' then key_enter a
      else if k = ''u'' then key_u a
      else if k = ''r'' then key_operation restartContainer None restartComposeProject a
      else if k = ''s'' then
        key_operation startContainer
          (Some (startGroup (docker a) (groupManager a))) startComposeProject a
      else if k = ''x'' then
        key_operation stopContainer
          (Some (stopGroup (docker a) (groupManager a))) stopComposeProject a
      else if k = ''l'' then key_l a
      else if k = ''t'' then key_t a
      else if k = ''e'' then key_e a
      else if k = ''v'' then key_v a
      else if k = ''ctrl+s'' then key_ctrl_s a
      else if k = ''d'' then key_d a
      else if k = ''p'' then key_p a
      else None)"

text \<open>The case \<open>tea.KeyMsg\<close> of \<open>Update\<close>.\<close>

definition Update_KeyMsg :: "ext \<Rightarrow> string \<Rightarrow> App \<Rightarrow> (App \<times> Cmd option) outcome" where
  "Update_KeyMsg lib k a =
     (case modal a of
        Some m \<Rightarrow>
          if visible m then modal_key lib (KeyMsg k) m a
          else if view_is_filtering a then Returned (filter_delegate lib (KeyMsg k) a)
          else (case global_keys lib k a of
                  Some r \<Rightarrow> r
                | None \<Rightarrow> Returned (delegate lib (KeyMsg k) a))
      | None \<Rightarrow>
          if view_is_filtering a then Returned (filter_delegate lib (KeyMsg k) a)
          else (case global_keys lib k a of
                  Some r \<Rightarrow> r
                | None \<Rightarrow> Returned (delegate lib (KeyMsg k) a)))"

subsection \<open>\<open>Update\<close>\<close>

text \<open>
  The messages that report how an operation ended all follow one pattern: the error
  banner or the status banner, then a batch of commands that reload and that clear the
  banner after two seconds.  \<open>status\<close> is \<open>Panicked\<close> where building the status text
  slices an ID that is too short.
\<close>

definition operation_done ::
  "string \<Rightarrow> error option \<Rightarrow> string outcome \<Rightarrow> Cmd option list \<Rightarrow> App
     \<Rightarrow> (App \<times> Cmd option) outcome" where
  "operation_done failure e status cmds a =
     (case e of
        Some msg \<Rightarrow> Returned (a\<lparr>errorMessage := failure @ msg\<rparr>, Some (Batch cmds))
      | None \<Rightarrow>
          (case status of
             Panicked \<Rightarrow> Panicked
           | Returned s \<Rightarrow> Returned (a\<lparr>statusMessage := s\<rparr>, Some (Batch cmds))))"

text \<open>\<open>id[:12]\<close> between two pieces of text.\<close>

definition with_short_id :: "string \<Rightarrow> string \<Rightarrow> string \<Rightarrow> string outcome" where
  "with_short_id before cid after =
     (if length cid < 12 then Panicked else Returned (before @ take 12 cid @ after))"

definition reload_containers :: "App \<Rightarrow> Cmd option list" where
  "reload_containers a = [Some (fetchContainers (docker a)), Some (clearStatus 2)]"

definition Update_WindowSizeMsg :: "int \<Rightarrow> int \<Rightarrow> App \<Rightarrow> App" where
  "Update_WindowSizeMsg w h a =
     (let sidebarWidth = 22; mainWidth = w - sidebarWidth in
      a\<lparr>app_width := w, app_height := h,
        sidebar := (sidebar a)\<lparr>sidebar_width := sidebarWidth, sidebar_height := h\<rparr>,
        header_width := mainWidth,
        footer_width := w,
        modal := map_option (Modal_SetSize w h) (modal a),
        containersView := (containersView a)\<lparr>containersView_width := mainWidth,
                                               containersView_height := h - 4\<rparr>,
        imagesView := (imagesView a)\<lparr>imagesView_width := mainWidth, imagesView_height := h - 4\<rparr>,
        groupsView := GroupsView_SetSize mainWidth (h - 4) (groupsView a),
        volumesView := (volumesView a)\<lparr>volumesView_width := mainWidth,
                                         volumesView_height := h - 4\<rparr>,
        composeView := (composeView a)\<lparr>composeView_width := mainWidth,
                                         composeView_height := h - 4\<rparr>,
        networksView := NetworksView_SetSize mainWidth (h - 4) (networksView a),
        logsView := LogsView_SetSize mainWidth (h - 4) (logsView a),
        statsView := StatsView_SetSize mainWidth (h - 4) (statsView a),
        envVarsView := (envVarsView a)\<lparr>envVarsView_width := mainWidth,
                                         envVarsView_height := h - 4\<rparr>,
        aboutView := (aboutView a)\<lparr>aboutView_width := w, aboutView_height := h - 4\<rparr>\<rparr>)"

definition Update_RefreshTickMsg :: "App \<Rightarrow> App \<times> Cmd option" where
  "Update_RefreshTickMsg a =
     (if \<not> ready a then (a, Some tickRefresh)
      else if view_is_filtering a then (a, Some tickRefresh)
      else
        let cmd = (case CurrentView (state a) of
                     ViewContainers \<Rightarrow> Some (fetchContainers (docker a))
                   | ViewImages \<Rightarrow> Some (fetchImages (docker a))
                   | ViewGroups \<Rightarrow> Some (loadGroups (groupManager a))
                   | ViewVolumes \<Rightarrow>
                       Some (Batch [Some (fetchVolumes (docker a)),
                                    Some (fetchContainers (docker a))])
                   | ViewCompose \<Rightarrow> Some (fetchComposeProjects (docker a))
                   | ViewNetworks \<Rightarrow>
                       Some (Batch [Some (fetchNetworks (docker a)),
                                    Some (fetchContainers (docker a))])
                   | _ \<Rightarrow> None)
        in (a, Some (Batch [cmd, Some tickRefresh])))"

text \<open>
  \<open>Update\<close>.  A case of the type switch that does not return, and a message for which
  the switch has no case, go on to the delegation to the current view.
\<close>

definition Update :: "ext \<Rightarrow> Msg \<Rightarrow> App \<Rightarrow> (App \<times> Cmd option) outcome" where
  "Update lib msg a =
     (case msg of
        WindowSizeMsg w h \<Rightarrow> Returned (delegate lib msg (Update_WindowSizeMsg w h a))
      | KeyMsg k \<Rightarrow> Update_KeyMsg lib k a
      | DockerClientReadyMsg client \<Rightarrow>
          Returned (a\<lparr>docker := Some client, ready := True\<rparr>, Some (fetchContainers (Some client)))
      | GroupManagerReadyMsg manager \<Rightarrow>
          Returned (delegate lib msg
            (a\<lparr>groupManager := Some manager,
               groupsView := SetGroups lib (Groups (config manager)) (groupsView a)\<rparr>))
      | ContainersLoadedMsg containers \<Rightarrow>
          Returned (delegate lib msg
            (a\<lparr>containersView := containersView_SetContainers lib containers (containersView a),
               groupsView := SetAllContainers lib containers (groupsView a),
               networksView := nv_SetAllContainers lib containers (networksView a),
               volumesView := volumesView_SetAllContainers lib containers (volumesView a)\<rparr>))
      | ImagesLoadedMsg images \<Rightarrow>
          Returned (delegate lib msg (a\<lparr>imagesView := imagesView_SetImages lib images (imagesView a)\<rparr>))
      | GroupsLoadedMsg gs \<Rightarrow>
          Returned (delegate lib msg (a\<lparr>groupsView := SetGroups lib gs (groupsView a)\<rparr>))
      | VolumesLoadedMsg volumes \<Rightarrow>
          Returned (delegate lib msg
            (a\<lparr>volumesView := volumesView_SetVolumes lib volumes (volumesView a)\<rparr>))
      | ComposeProjectsLoadedMsg projects \<Rightarrow>
          Returned (delegate lib msg
            (a\<lparr>composeView := composeView_SetProjects lib projects (composeView a)\<rparr>))
      | NetworksLoadedMsg ns \<Rightarrow>
          Returned (delegate lib msg (a\<lparr>networksView := SetNetworks lib ns (networksView a)\<rparr>))
      | RefreshTickMsg \<Rightarrow> Returned (Update_RefreshTickMsg a)
      | ContainerStartedMsg cid e \<Rightarrow>
          operation_done ''Failed to start container: '' e
            (with_short_id ''Container '' cid '' started'') (reload_containers a) a
      | ContainerStoppedMsg cid e \<Rightarrow>
          operation_done ''Failed to stop container: '' e
            (with_short_id ''Container '' cid '' stopped'') (reload_containers a) a
      | ContainerRestartedMsg cid e \<Rightarrow>
          operation_done ''Failed to restart container: '' e
            (with_short_id ''Container '' cid '' restarted'') (reload_containers a) a
      | ClearStatusMsg \<Rightarrow>
          Returned (delegate lib msg (a\<lparr>statusMessage := [], errorMessage := []\<rparr>))
      | ImageRemovedMsg iid e \<Rightarrow>
          operation_done ''Failed to remove image: '' e
            (with_short_id ''Image '' iid '' removed'')
            [Some (fetchImages (docker a)), Some (clearStatus 2)] a
      | GroupStartedMsg gid e \<Rightarrow>
          operation_done ''Failed to start group: '' e
            (Returned ''Group started successfully'') (reload_containers a) a
      | GroupStoppedMsg gid e \<Rightarrow>
          operation_done ''Failed to stop group: '' e
            (Returned ''Group stopped successfully'') (reload_containers a) a
      | GroupCreatedMsg name \<Rightarrow>
          Returned (a\<lparr>statusMessage := ''Group '' @ quoted name @ '' created successfully''\<rparr>,
                    Some (Batch [Some (loadGroups (groupManager a)), Some (clearStatus 2)]))
      | ContainerAddedToGroupMsg gid cid e \<Rightarrow>
          operation_done ''Failed to add container: '' e (Returned ''Container added to group'')
            [Some (loadGroups (groupManager a)), Some (fetchContainers (docker a)),
             Some (clearStatus 2)] a
      | ContainerRemovedFromGroupMsg gid cid e \<Rightarrow>
          operation_done ''Failed to remove container: '' e
            (Returned ''Container removed from group'')
            [Some (loadGroups (groupManager a)), Some (fetchContainers (docker a)),
             Some (clearStatus 2)] a
      | VolumeRemovedMsg name e \<Rightarrow>
          operation_done ''Failed to remove volume: '' e
            (Returned (''Volume '' @ quoted name @ '' removed''))
            [Some (fetchVolumes (docker a)), Some (clearStatus 2)] a
      | ComposeProjectStartedMsg name e \<Rightarrow>
          operation_done ''Failed to start project: '' e
            (Returned (''Compose project '' @ quoted name @ '' started''))
            [Some (fetchComposeProjects (docker a)), Some (fetchContainers (docker a)),
             Some (clearStatus 2)] a
      | ComposeProjectStoppedMsg name e \<Rightarrow>
          operation_done ''Failed to stop project: '' e
            (Returned (''Compose project '' @ quoted name @ '' stopped''))
            [Some (fetchComposeProjects (docker a)), Some (fetchContainers (docker a)),
             Some (clearStatus 2)] a
      | ComposeProjectRestartedMsg name e \<Rightarrow>
          operation_done ''Failed to restart project: '' e
            (Returned (''Compose project '' @ quoted name @ '' restarted''))
            [Some (fetchComposeProjects (docker a)), Some (fetchContainers (docker a)),
             Some (clearStatus 2)] a
      | ImagePullCompletedMsg name e \<Rightarrow>
          operation_done ''Failed to pull image: '' e
            (Returned (''Image '' @ quoted name @ '' pulled successfully''))
            [Some (fetchImages (docker a)), Some (clearStatus 2)] a
      | ContainerConnectedToNetworkMsg nid cid e \<Rightarrow>
          operation_done ''Failed to connect container: '' e
            (Returned ''Container connected to network'')
            [Some (fetchNetworks (docker a)), Some (fetchContainers (docker a)),
             Some (clearStatus 2)] a
      | ContainerDisconnectedFromNetworkMsg nid cid e \<Rightarrow>
          operation_done ''Failed to disconnect container: '' e
            (Returned ''Container disconnected from network'')
            [Some (fetchNetworks (docker a)), Some (fetchContainers (docker a)),
             Some (clearStatus 2)] a
      | NetworkCreatedMsg name e \<Rightarrow>
          operation_done ''Failed to create network: '' e
            (Returned (''Network '' @ quoted name @ '' created''))
            [Some (fetchNetworks (docker a)), Some (clearStatus 2)] a
      | NetworkRemovedMsg nid e \<Rightarrow>
          operation_done ''Failed to remove network: '' e (Returned ''Network removed'')
            [Some (fetchNetworks (docker a)), Some (clearStatus 2)] a
      | ContainerConfigLoadedMsg cid cfg e \<Rightarrow>
          (case e of
             Some msg \<Rightarrow>
               Returned (a\<lparr>errorMessage := ''Failed to load container config: '' @ msg\<rparr>,
                         Some (clearStatus 3))
           | None \<Rightarrow>
               (case cfg of
                  None \<Rightarrow> Panicked
                | Some c \<Rightarrow>
                    Returned
                      (a\<lparr>pendingEnvContainer := Some c,
                         state := (state a)
                           \<lparr>SelectedContainer :=
                              Some (container_ref cid (ContainerFullConfig.Name c)),
                            PreviousView := CurrentView (state a),
                            CurrentView := ViewEnvVars\<rparr>,
                         envVarsView := envVarsView_SetContainer lib cid (ContainerFullConfig.Name c)
                                          (ContainerFullConfig.Env c) (envVarsView a)\<rparr>,
                       None)))
      | ContainerRecreatedMsg oldID newID name e \<Rightarrow>
          (let a1 = (case e of
                       Some msg \<Rightarrow> a\<lparr>errorMessage := ''Failed to rebuild container: '' @ msg\<rparr>
                     | None \<Rightarrow>
                         a\<lparr>statusMessage := ''Container '' @ quoted name
                                                @ '' rebuilt with new environment''\<rparr>)
           in Returned (show_view ViewContainers (a1\<lparr>pendingEnvContainer := None\<rparr>),
                        Some (Batch [Some (fetchContainers (docker a)), Some (clearStatus 3)])))
      | StatusMsg s \<Rightarrow> Returned (a\<lparr>statusMessage := s\<rparr>, Some (clearStatus 2))
      | ErrorMsg e \<Rightarrow> Returned (a\<lparr>errorMessage := e\<rparr>, Some (clearStatus 3))
      | _ \<Rightarrow> Returned (delegate lib msg a))"

definition New :: App where
  "New =
     \<lparr>state = NewAppState, app_width = 0, app_height = 0, ready = False, docker = None,
      groupManager = None,
      sidebar = \<lparr>sidebar_currentView = ViewContainers, sidebar_width = 20, sidebar_height = 0\<rparr>,
      header_width = 0, footer_width = 0, modal = None,
      containersView = \<lparr>containersView_IsFiltering = False,
                         containersView_GetSelectedContainer = None,
                         containersView_width = 0, containersView_height = 0\<rparr>,
      imagesView = \<lparr>imagesView_IsFiltering = False, imagesView_GetSelectedImage = None,
                     imagesView_width = 0, imagesView_height = 0\<rparr>,
      groupsView = \<lparr>currentTab = GroupsListTab, groups = [], allContainers = [],
                     selectedGroup = None,
                     groupsList = \<lparr>items = [], cursor = 0, filterState = Unfiltered,
                                    list_width = 0, list_height = 0\<rparr>,
                     containersInGroupList = \<lparr>items = [], cursor = 0, filterState = Unfiltered,
                                               list_width = 0, list_height = 0\<rparr>,
                     availableContainersList = \<lparr>items = [], cursor = 0, filterState = Unfiltered,
                                                 list_width = 0, list_height = 0\<rparr>,
                     width = 0, height = 0\<rparr>,
      volumesView = \<lparr>volumesView_IsFiltering = False, volumesView_GetSelectedVolume = None,
                      volumesView_width = 0, volumesView_height = 0\<rparr>,
      composeView = \<lparr>composeView_IsFiltering = False, composeView_IsViewingServices = False,
                      composeView_IsViewingContainers = False,
                      composeView_GetSelectedContainer = None,
                      composeView_GetSelectedProject = None,
                      composeView_width = 0, composeView_height = 0\<rparr>,
      networksView = \<lparr>nv_currentTab = NetworksListTab, networks = [], nv_allContainers = [],
                       selectedNetwork = None,
                       networksList = \<lparr>items = [], cursor = 0, filterState = Unfiltered,
                                        list_width = 0, list_height = 0\<rparr>,
                       containersInNetworkList = \<lparr>items = [], cursor = 0,
                                                   filterState = Unfiltered,
                                                   list_width = 0, list_height = 0\<rparr>,
                       nv_availableContainersList = \<lparr>items = [], cursor = 0,
                                                      filterState = Unfiltered,
                                                      list_width = 0, list_height = 0\<rparr>,
                       nv_width = 0, nv_height = 0\<rparr>,
      logsView = NewLogsView, statsView = NewStatsView,
      envVarsView = \<lparr>envVarsView_IsFiltering = False, envVarsView_IsEditing = False, envVarsView_IsModified = False,
                      envVarsView_GetEnvVars = [],
                      envVarsView_width = 0, envVarsView_height = 0\<rparr>,
      aboutView = \<lparr>aboutView_width = 0, aboutView_height = 0\<rparr>,
      statusMessage = [], errorMessage = [], pendingDelete = [], pendingDeleteType = [],
      pendingEnvContainer = None\<rparr>"




subsection \<open>Concrete inputs for the reducer\<close>

text \<open>
  Widgets and views that keep their state and return no command, with a list that stores
  its new items.
\<close>

definition lib0 :: ext where
  "lib0 =
     \<lparr>list_SetItems = (\<lambda>is l. l\<lparr>items := is\<rparr>),
      list_Update = (\<lambda>msg l. (l, None)),
      textinput_Update = (\<lambda>msg t. (t, None)),
      viewport_Update = (\<lambda>msg v. (v, None)),
      containersView_Update = (\<lambda>msg v. (v, None)),
      containersView_SetContainers = (\<lambda>cs v. v),
      imagesView_Update = (\<lambda>msg v. (v, None)),
      imagesView_SetImages = (\<lambda>is v. v),
      volumesView_Update = (\<lambda>msg v. (v, None)),
      volumesView_SetVolumes = (\<lambda>vs v. v),
      volumesView_SetAllContainers = (\<lambda>cs v. v),
      composeView_Update = (\<lambda>msg v. (v, None)),
      composeView_SetProjects = (\<lambda>ps v. v),
      envVarsView_Update = (\<lambda>msg v. (v, None)),
      envVarsView_SetContainer = (\<lambda>cid cname env v. v)\<rparr>"

text \<open>The groups view after the group \<open>grp1\<close> was selected with \<open>enter\<close>.\<close>

definition groups_selected :: GroupsView where
  "groups_selected =
     (groupsView New)\<lparr>groups := [grp1], selectedGroup := Some grp1,
                       currentTab := GroupsContainersTab\<rparr>"

text \<open>The environment view is shown and the list of its editor is filtering.\<close>

definition env_filtering :: App where
  "env_filtering =
     New\<lparr>state := NewAppState\<lparr>CurrentView := ViewEnvVars\<rparr>,
         envVarsView := (envVarsView New)\<lparr>envVarsView_IsFiltering := True\<rparr>\<rparr>"


section \<open>Running the program: channels, producers and the event loop\<close>

subsection \<open>Channels\<close>

text \<open>
  A buffered Go channel: the elements sent and not yet received, the capacity, and
  whether it is closed.  An element of a data channel is modelled by the message it
  becomes (\<open>LogEntryMsg\<close> or \<open>ContainerStatsMsg\<close>).
\<close>

record 'a channel =
  buffer :: "'a list"
  capacity :: nat
  chan_closed :: bool

definition make_chan :: "nat \<Rightarrow> 'a channel" where
  "make_chan n = \<lparr>buffer = [], capacity = n, chan_closed = False\<rparr>"

text \<open>
  The goroutine of \<open>StreamLogs\<close> or \<open>StreamStats\<close>: the records that its reader will
  still deliver, the error with which the reader ends (none when the stream ends
  cleanly), and how far the goroutine is.  Its deferred calls close the error channel
  first and the data channel second.  The context it was given is \<open>context.Background()\<close>,
  whose \<open>Done\<close> channel never becomes ready, so the goroutine has no cancelled branch.
\<close>

datatype phase = Emitting | ClosingData | Ended

record producer =
  dataChan :: chan
  errorChan :: chan
  pending :: "Msg list"
  failure :: "error option"
  phase :: phase

record store =
  dataChans :: "chan \<Rightarrow> Msg channel"
  errChans :: "chan \<Rightarrow> error channel"
  next_chan :: chan
  producers :: "producer list"

definition can_send :: "'a channel \<Rightarrow> bool" where
  "can_send c \<longleftrightarrow> length (buffer c) < capacity c"

definition send :: "'a \<Rightarrow> 'a channel \<Rightarrow> 'a channel" where
  "send x c = c\<lparr>buffer := buffer c @ [x]\<rparr>"

definition close :: "'a channel \<Rightarrow> 'a channel" where
  "close c = c\<lparr>chan_closed := True\<rparr>"

text \<open>One step of a producer; a send on a full channel waits (the state stays).\<close>

definition producer_step :: "producer \<Rightarrow> store \<Rightarrow> producer \<times> store" where
  "producer_step p st =
     (case phase p of
        Emitting \<Rightarrow>
          (case pending p of
             x # xs \<Rightarrow>
               if can_send (dataChans st (dataChan p))
               then (p\<lparr>pending := xs\<rparr>,
                     st\<lparr>dataChans := (dataChans st)(dataChan p := send x (dataChans st (dataChan p)))\<rparr>)
               else (p, st)
           | [] \<Rightarrow>
               (case failure p of
                  Some e \<Rightarrow>
                    if can_send (errChans st (errorChan p))
                    then (p\<lparr>failure := None\<rparr>,
                          st\<lparr>errChans := (errChans st)(errorChan p := send e (errChans st (errorChan p)))\<rparr>)
                    else (p, st)
                | None \<Rightarrow>
                    (p\<lparr>phase := ClosingData\<rparr>,
                     st\<lparr>errChans := (errChans st)(errorChan p := close (errChans st (errorChan p)))\<rparr>)))
      | ClosingData \<Rightarrow>
          (p\<lparr>phase := Ended\<rparr>,
           st\<lparr>dataChans := (dataChans st)(dataChan p := close (dataChans st (dataChan p)))\<rparr>)
      | Ended \<Rightarrow> (p, st))"

text \<open>
  A receive can proceed when the channel holds an element or is closed; a receive on a
  nil channel never can.
\<close>

definition can_recv :: "'a channel option \<Rightarrow> bool" where
  "can_recv c = (case c of None \<Rightarrow> False | Some ch \<Rightarrow> buffer ch \<noteq> [] \<or> chan_closed ch)"

datatype wait_result = Blocked | Received "Msg option"

text \<open>
  The \<open>select\<close> of \<open>waitForLogEntry\<close> and \<open>waitForStats\<close>.  When both receives can
  proceed, Go chooses one of them at random: \<open>prefer_data\<close> is that choice.  A receive
  from a closed and empty channel gives \<open>ok = false\<close>, and the command returns nil.
  \<open>wrap\<close> is what the command makes of an error: \<open>ErrorMsg\<close> in package \<open>app\<close>, the bare
  error in package \<open>views\<close>.
\<close>

definition select_recv ::
  "bool \<Rightarrow> (error \<Rightarrow> Msg) \<Rightarrow> chan option \<Rightarrow> chan option \<Rightarrow> store \<Rightarrow> wait_result \<times> store" where
  "select_recv prefer_data wrap dc ec st =
     (let d_ready = can_recv (map_option (dataChans st) dc);
          e_ready = can_recv (map_option (errChans st) ec)
      in if d_ready \<and> (prefer_data \<or> \<not> e_ready) then
           (case dc of
              None \<Rightarrow> (Blocked, st)
            | Some c \<Rightarrow>
                (case buffer (dataChans st c) of
                   x # xs \<Rightarrow>
                     (Received (Some x),
                      st\<lparr>dataChans := (dataChans st)(c := (dataChans st c)\<lparr>buffer := xs\<rparr>)\<rparr>)
                 | [] \<Rightarrow> (Received None, st)))
         else if e_ready then
           (case ec of
              None \<Rightarrow> (Blocked, st)
            | Some c \<Rightarrow>
                (case buffer (errChans st c) of
                   e # es \<Rightarrow>
                     (Received (Some (wrap e)),
                      st\<lparr>errChans := (errChans st)(c := (errChans st c)\<lparr>buffer := es\<rparr>)\<rparr>)
                 | [] \<Rightarrow> (Received None, st)))
         else (Blocked, st))"

subsection \<open>The world outside\<close>

text \<open>
  What the Docker SDK and the daemon answer, as far as the commands modelled here ask:
  whether the client can be created and the daemon pinged, the log records and the
  statistics samples of a container with the error that ends the stream, and the message
  of every other command.
\<close>

record env =
  sdk_NewClientWithOpts :: "error option"
  sdk_Ping :: "error option"
  NewGroupManager :: "error + GroupManager"
  container_logs :: "string \<Rightarrow> LogEntry list \<times> error option"
  container_stats :: "string \<Rightarrow> ContainerStats list \<times> error option"
  other_result :: "Cmd \<Rightarrow> Msg option"

text \<open>\<open>docker.NewClient\<close>, of \<open>internal/docker/client.go\<close>.\<close>

definition NewClient :: "env \<Rightarrow> error + Client" where
  "NewClient e =
     (case sdk_NewClientWithOpts e of
        Some er \<Rightarrow> Inl (''failed to create docker client: '' @ er)
      | None \<Rightarrow>
          (case sdk_Ping e of
             Some er \<Rightarrow> Inl (''docker daemon not reachable: '' @ er)
           | None \<Rightarrow> Inr \<lparr>closed = False\<rparr>))"

text \<open>The closures of \<open>initDockerClient\<close> and \<open>initGroupManager\<close>.\<close>

definition run_initDockerClient :: "env \<Rightarrow> Msg" where
  "run_initDockerClient e =
     (case NewClient e of
        Inl er \<Rightarrow> ErrorMsg (''failed to initialize Docker client: '' @ er)
      | Inr client \<Rightarrow> DockerClientReadyMsg client)"

definition run_initGroupManager :: "env \<Rightarrow> Msg" where
  "run_initGroupManager e =
     (case NewGroupManager e of
        Inl er \<Rightarrow> ErrorMsg (''failed to load groups: '' @ er)
      | Inr gm \<Rightarrow> GroupManagerReadyMsg gm)"

text \<open>\<open>main\<close>: the exit code, from what \<open>p.Run()\<close> returns.\<close>

definition main_exit_code :: "error option \<Rightarrow> nat" where
  "main_exit_code run_error = (case run_error of Some _ \<Rightarrow> 1 | None \<Rightarrow> 0)"

subsection \<open>The event loop\<close>

text \<open>
  The event loop is the one of the bubbletea library; from its contract the model takes
  this.  A command returned by \<open>Update\<close> runs in a goroutine of its own and its message,
  unless nil, is delivered to \<open>Update\<close>; the commands of a batch run independently; the
  message of \<open>tea.Quit\<close> ends the loop and \<open>Run\<close> returns no error; messages are
  delivered one at a time.  A state of the program: the model, the commands that are
  running, the channels and producers, and whether the process is running, has exited
  with a code, or has crashed with a panic in \<open>Update\<close>.  The messages delivered so far
  are recorded, the latest last.
\<close>

datatype status = Running | Exited nat | Crashed

record sys =
  app :: App
  running :: "Cmd list"
  world :: store
  status :: status
  delivered :: "Msg list"

fun flatten :: "Cmd \<Rightarrow> Cmd list" where
  "flatten (Batch cs) = concat (map (\<lambda>c. case c of None \<Rightarrow> [] | Some c' \<Rightarrow> flatten c') cs)"
| "flatten c = [c]"

definition start :: "Cmd option \<Rightarrow> Cmd list" where
  "start cmd = (case cmd of None \<Rightarrow> [] | Some c \<Rightarrow> flatten c)"

definition deliver :: "ext \<Rightarrow> Msg \<Rightarrow> sys \<Rightarrow> sys" where
  "deliver lib msg s =
     (case Update lib msg (app s) of
        Panicked \<Rightarrow> s\<lparr>status := Crashed, delivered := delivered s @ [msg]\<rparr>
      | Returned (a, cmd) \<Rightarrow>
          s\<lparr>app := a, running := running s @ start cmd, delivered := delivered s @ [msg]\<rparr>)"

text \<open>
  The first part of the closures of \<open>startLogStreaming\<close> and \<open>startStatsStreaming\<close>:
  two channels are made, the producer is started, and the view gets the channels.  The
  closure goes on with the wait command.
\<close>

definition open_stream :: "nat \<Rightarrow> Msg list \<times> error option \<Rightarrow> store \<Rightarrow> chan \<times> chan \<times> store" where
  "open_stream cap src st =
     (let dc = next_chan st; ec = Suc (next_chan st)
      in (dc, ec,
          st\<lparr>dataChans := (dataChans st)(dc := make_chan cap),
             errChans := (errChans st)(ec := make_chan 1),
             next_chan := Suc (Suc (next_chan st)),
             producers := producers st @
               [\<lparr>dataChan = dc, errorChan = ec, pending = fst src, failure = snd src,
                 phase = Emitting\<rparr>]\<rparr>))"

datatype run_result = Waits | Finished "Msg option" | Continues Cmd | Quits

definition run_cmd :: "env \<Rightarrow> bool \<Rightarrow> Cmd \<Rightarrow> sys \<Rightarrow> run_result \<times> sys" where
  "run_cmd e choice cmd s =
     (case cmd of
        Quit \<Rightarrow> (Quits, s)
      | Tick d m \<Rightarrow> (Finished (Some m), s)
      | initDockerClient \<Rightarrow> (Finished (Some (run_initDockerClient e)), s)
      | initGroupManager \<Rightarrow> (Finished (Some (run_initGroupManager e)), s)
      | startLogStreaming client c \<Rightarrow>
          (case client of
             None \<Rightarrow> (Finished None, s)
           | Some _ \<Rightarrow>
               let (ls, er) = container_logs e (Container.ID c);
                   (dc, ec, st) = open_stream 100 (map LogEntryMsg ls, er) (world s)
               in (Continues (waitForLogEntry (Some dc) (Some ec)),
                   s\<lparr>world := st,
                     app := (app s)\<lparr>logsView :=
                              LogsView_StartStreaming (Some dc) (Some ec) (logsView (app s))\<rparr>\<rparr>))
      | startStatsStreaming client c \<Rightarrow>
          (case client of
             None \<Rightarrow> (Finished None, s)
           | Some _ \<Rightarrow>
               let (ss, er) = container_stats e (Container.ID c);
                   (dc, ec, st) = open_stream 10 (map ContainerStatsMsg ss, er) (world s)
               in (Continues (waitForStats (Some dc) (Some ec)),
                   s\<lparr>world := st,
                     app := (app s)\<lparr>statsView :=
                              StatsView_StartStreaming (Some dc) (Some ec) (statsView (app s))\<rparr>\<rparr>))
      | waitForLogEntry dc ec \<Rightarrow>
          (case select_recv choice ErrorMsg dc ec (world s) of
             (Blocked, _) \<Rightarrow> (Waits, s)
           | (Received m, st) \<Rightarrow> (Finished m, s\<lparr>world := st\<rparr>))
      | ViewsWaitForLogEntry dc ec \<Rightarrow>
          (case select_recv choice RawErrorMsg dc ec (world s) of
             (Blocked, _) \<Rightarrow> (Waits, s)
           | (Received m, st) \<Rightarrow> (Finished m, s\<lparr>world := st\<rparr>))
      | waitForStats dc ec \<Rightarrow>
          (case select_recv choice ErrorMsg dc ec (world s) of
             (Blocked, _) \<Rightarrow> (Waits, s)
           | (Received m, st) \<Rightarrow> (Finished m, s\<lparr>world := st\<rparr>))
      | ViewsWaitForStats dc ec \<Rightarrow>
          (case select_recv choice RawErrorMsg dc ec (world s) of
             (Blocked, _) \<Rightarrow> (Waits, s)
           | (Received m, st) \<Rightarrow> (Finished m, s\<lparr>world := st\<rparr>))
      | _ \<Rightarrow> (Finished (other_result e cmd), s))"

text \<open>
  What can happen next: the user or the terminal sends a message; the \<open>i\<close>-th running
  command gets to run (with the choice of its \<open>select\<close>); the \<open>i\<close>-th producer makes a
  step; the event loop fails with an error.  Nothing happens once the process has ended.
\<close>

datatype action = Input Msg | Run nat bool | Produce nat | LoopFails error

definition remove_nth :: "nat \<Rightarrow> 'a list \<Rightarrow> 'a list" where
  "remove_nth i xs = take i xs @ drop (Suc i) xs"

definition step :: "ext \<Rightarrow> env \<Rightarrow> action \<Rightarrow> sys \<Rightarrow> sys" where
  "step lib e act s =
     (if status s \<noteq> Running then s
      else
        case act of
          Input msg \<Rightarrow> deliver lib msg s
        | LoopFails er \<Rightarrow> s\<lparr>status := Exited (main_exit_code (Some er))\<rparr>
        | Produce i \<Rightarrow>
            if i < length (producers (world s)) then
              (let (p, st) = producer_step (producers (world s) ! i) (world s)
               in s\<lparr>world := st\<lparr>producers := (producers st)[i := p]\<rparr>\<rparr>)
            else s
        | Run i choice \<Rightarrow>
            if i < length (running s) then
              (case run_cmd e choice (running s ! i) s of
                 (Waits, _) \<Rightarrow> s
               | (Quits, _) \<Rightarrow> s\<lparr>status := Exited (main_exit_code None)\<rparr>
               | (Continues c, s') \<Rightarrow> s'\<lparr>running := (running s')[i := c]\<rparr>
               | (Finished m, s') \<Rightarrow>
                   (let s'' = s'\<lparr>running := remove_nth i (running s')\<rparr>
                    in case m of None \<Rightarrow> s'' | Some msg \<Rightarrow> deliver lib msg s''))
            else s)"

fun steps :: "ext \<Rightarrow> env \<Rightarrow> action list \<Rightarrow> sys \<Rightarrow> sys" where
  "steps lib e [] s = s"
| "steps lib e (act # acts) s = steps lib e acts (step lib e act s)"

text \<open>The program when \<open>main\<close> has started the event loop: \<open>New\<close> and the commands of \<open>Init\<close>.\<close>

definition initial :: sys where
  "initial =
     \<lparr>app = New, running = flatten Init,
      world = \<lparr>dataChans = (\<lambda>_. make_chan 0), errChans = (\<lambda>_. make_chan 0), next_chan = 0,
                producers = []\<rparr>,
      status = Running, delivered = []\<rparr>"

subsection \<open>Concrete worlds\<close>


text \<open>
  The daemon runs one container, whose log has two records and then ends cleanly.
\<close>

definition web :: Container where
  "web = container_ref ''0f1e2d3c4b5a6978'' ''web''"

definition rec1 :: LogEntry where
  "rec1 = \<lparr>Line = ''starting'', Timestamp = 1, IsError = False\<rparr>"

definition rec2 :: LogEntry where
  "rec2 = \<lparr>Line = ''listening on :80'', Timestamp = 2, IsError = False\<rparr>"

definition env_up :: env where
  "env_up =
     \<lparr>sdk_NewClientWithOpts = None,
      sdk_Ping = None,
      NewGroupManager = Inr m0,
      container_logs = (\<lambda>_. ([rec1, rec2], None)),
      container_stats = (\<lambda>_. ([], None)),
      other_result = (\<lambda>_. None)\<rparr>"

text \<open>
  The program with a Docker client, the container \<open>web\<close> selected in the containers view,
  and no command running.
\<close>

definition ready_app :: App where
  "ready_app =
     New\<lparr>ready := True, docker := Some \<lparr>closed = False\<rparr>,
         containersView := (containersView New)\<lparr>containersView_GetSelectedContainer := Some web\<rparr>\<rparr>"

definition ready_sys :: sys where
  "ready_sys = initial\<lparr>app := ready_app, running := []\<rparr>"

text \<open>
  After the key \<open>l\<close> and the start of the stream: the model, and the store with the
  two channels of the stream (numbers 0 and 1) and its producer, as functions of the
  buffer of the data channel, the records still to come, whether the error channel and
  the data channel are closed, and the phase of the producer.
\<close>

definition logs_app :: App where
  "logs_app = ready_app\<lparr>state := NewAppState\<lparr>PreviousView := ViewContainers, CurrentView := ViewLogs,
                                         SelectedContainer := Some web\<rparr>,
                   logsView := LogsView_StartStreaming (Some 0) (Some 1)
                     (LogsView_SetContainer (Container.ID web) (Container.Name web) (logsView ready_app))\<rparr>"

definition stream_world :: "Msg list \<Rightarrow> Msg list \<Rightarrow> bool \<Rightarrow> bool \<Rightarrow> phase \<Rightarrow> store" where
  "stream_world buf pend eclosed dclosed ph =
     \<lparr>dataChans = (\<lambda>_. make_chan 0)(0 := \<lparr>buffer = buf, capacity = 100, chan_closed = dclosed\<rparr>),
      errChans = (\<lambda>_. make_chan 0)(Suc 0 := \<lparr>buffer = [], capacity = 1, chan_closed = eclosed\<rparr>),
      next_chan = 2,
      producers = [\<lparr>dataChan = 0, errorChan = 1, pending = pend, failure = None, phase = ph\<rparr>]\<rparr>"


section \<open>Properties of the group manager\<close>

lemma pick_mset: "mset (pick ss xs) = mset xs"
proof (induction ss arbitrary: xs)
  case Nil
  then show ?case by simp
next
  case (Cons s ss)
  show ?case
  proof (cases "xs = []")
    case True
    then show ?thesis by simp
  next
    case False
    define i where "i = s mod length xs"
    have i: "i < length xs" using False by (simp add: i_def)
    have "mset xs = mset (take i xs @ xs ! i # drop (Suc i) xs)"
      using i by (simp add: id_take_nth_drop [symmetric])
    then show ?thesis using False Cons.IH [of "take i xs @ drop (Suc i) xs"]
      by (simp add: Let_def i_def [symmetric])
  qed
qed

lemma FindGroup_from_Some:
  "FindGroup_from gs gid = Some i \<Longrightarrow> i < length gs \<and> Group.ID (gs ! i) = gid"
proof (induction gs arbitrary: i)
  case Nil
  then show ?case by simp
next
  case (Cons g gs)
  then show ?case by (auto split: if_splits)
qed

lemma FindGroup_from_update:
  "i < length gs \<Longrightarrow> Group.ID g' = Group.ID (gs ! i) \<Longrightarrow>
   FindGroup_from (gs[i := g']) x = FindGroup_from gs x"
proof (induction gs arbitrary: i)
  case Nil
  then show ?case by simp
next
  case (Cons g gs)
  then show ?case by (cases i) auto
qed

lemma AddContainerToGroup_success_shape:
  assumes f: "FindGroup (config m) groupID = Some i"
    and n: "cid \<notin> set (ContainerIDs (Groups (config m) ! i))"
  shows "AddContainerToGroup SaveConfig now m groupID cid d =
           (fst (SaveConfig ((config m)\<lparr>Groups := (Groups (config m))[i := (Groups (config m) ! i)\<lparr>ContainerIDs := ContainerIDs (Groups (config m) ! i) @ [cid], Modified := now 1\<rparr>], LastModified := now 3\<rparr>) d),
            m\<lparr>config := (config m)\<lparr>Groups := (Groups (config m))[i := (Groups (config m) ! i)\<lparr>ContainerIDs := ContainerIDs (Groups (config m) ! i) @ [cid], Modified := now 1\<rparr>], LastModified := now 3\<rparr>\<rparr>,
            snd (SaveConfig ((config m)\<lparr>Groups := (Groups (config m))[i := (Groups (config m) ! i)\<lparr>ContainerIDs := ContainerIDs (Groups (config m) ! i) @ [cid], Modified := now 1\<rparr>], LastModified := now 3\<rparr>) d))"
proof -
  from f have i: "i < length (Groups (config m))" and id: "Group.ID (Groups (config m) ! i) = groupID"
    using FindGroup_from_Some by (auto simp: FindGroup_def)
  have "FindGroup_from ((Groups (config m))[i := (Groups (config m) ! i)\<lparr>ContainerIDs := ContainerIDs (Groups (config m) ! i) @ [cid], Modified := now 0\<rparr>]) groupID = Some i"
    using f i id by (simp add: FindGroup_from_update FindGroup_def)
  then show ?thesis using f n i id
    by (simp add: AddContainerToGroup_def UpdateGroup_def save_def Let_def split: prod.splits)
qed

text \<open>
  Claim C10.  \<open>AddContainerToGroup\<close> with a container ID that the group already holds
  returns nil and changes neither the manager nor the disk; after any call on an
  existing group, a second call with the same arguments is such a no-op; and when no
  group holds a container ID twice before the call, none does after it.
\<close>

theorem AddContainerToGroup_idempotent:
  assumes run: "AddContainerToGroup SaveConfig now m groupID cid d = (e, m', d')"
  shows "(\<forall>grp. GetGroup m groupID = Some grp \<and> cid \<in> set (ContainerIDs grp)
            \<longrightarrow> e = None \<and> m' = m \<and> d' = d)
       \<and> (GetGroup m groupID \<noteq> None
            \<longrightarrow> AddContainerToGroup SaveConfig2 now2 m' groupID cid d' = (None, m', d'))
       \<and> ((\<forall>g \<in> set (Groups (config m)). distinct (ContainerIDs g))
            \<longrightarrow> (\<forall>g \<in> set (Groups (config m')). distinct (ContainerIDs g)))"
proof (cases "FindGroup (config m) groupID")
  case None
  then show ?thesis using run by (simp add: AddContainerToGroup_def GetGroup_def)
next
  case (Some i)
  then have i: "i < length (Groups (config m))"
    and id: "Group.ID (Groups (config m) ! i) = groupID"
    using FindGroup_from_Some by (auto simp: FindGroup_def)
  define old where "old = Groups (config m) ! i"
  show ?thesis
  proof (cases "cid \<in> set (ContainerIDs old)")
    case True
    then have "AddContainerToGroup SaveConfig now m groupID cid d = (None, m, d)"
      and "AddContainerToGroup SaveConfig2 now2 m groupID cid d = (None, m, d)"
      using Some by (simp_all add: AddContainerToGroup_def old_def)
    then show ?thesis using run by auto
  next
    case False
    define new where "new = old\<lparr>ContainerIDs := ContainerIDs old @ [cid], Modified := now 1\<rparr>"
    define cfg where "cfg = (config m)\<lparr>Groups := (Groups (config m))[i := new], LastModified := now 3\<rparr>"
    have m': "m' = m\<lparr>config := cfg\<rparr>"
      using AddContainerToGroup_success_shape [OF Some, of cid SaveConfig now d] False run
      by (simp add: old_def new_def cfg_def)
    have find': "FindGroup (config m') groupID = Some i"
      using Some i id by (simp add: m' cfg_def FindGroup_def FindGroup_from_update new_def old_def)
    have at: "Groups (config m') ! i = new"
      using i by (simp add: m' cfg_def)
    have again: "AddContainerToGroup SaveConfig2 now2 m' groupID cid d' = (None, m', d')"
      using find' at by (simp add: AddContainerToGroup_def new_def)
    have dist: "\<forall>g \<in> set (Groups (config m')). distinct (ContainerIDs g)"
      if all: "\<forall>g \<in> set (Groups (config m)). distinct (ContainerIDs g)"
    proof
      fix g assume "g \<in> set (Groups (config m'))"
      then have "g \<in> insert new (set (Groups (config m)))"
        using set_update_subset_insert [of "Groups (config m)" i new] by (auto simp: m' cfg_def)
      moreover have "distinct (ContainerIDs old)"
        using all i by (simp add: old_def)
      then have "distinct (ContainerIDs new)" using False by (simp add: new_def)
      ultimately show "distinct (ContainerIDs g)" using all by auto
    qed
    show ?thesis using False again dist by (auto simp: GetGroup_def Some old_def)
  qed
qed

text \<open>
  At the manager \<open>m0\<close>: adding \<open>c1\<close> again changes nothing, and adding the new
  \<open>c2\<close> twice adds it once.
\<close>

theorem AddContainerToGroup_idempotent_witness:
  "AddContainerToGroup (\<lambda>c d. (None, Some c)) (\<lambda>k. 7) m0 ''g1'' ''c1'' None = (None, m0, None)
   \<and> (\<exists>m' d'. AddContainerToGroup (\<lambda>c d. (None, Some c)) (\<lambda>k. 7) m0 ''g1'' ''c2'' None
                  = (None, m', d')
        \<and> map ContainerIDs (Groups (config m')) = [[''c1'', ''c2'']]
        \<and> AddContainerToGroup (\<lambda>c d. (None, Some c)) (\<lambda>k. 7) m' ''g1'' ''c2'' d' = (None, m', d'))"
proof -
  have g: "GetGroup m0 ''g1'' = Some (Groups (config m0) ! 0)"
    by (simp add: GetGroup_def FindGroup_def m0_def)
  have in1: "''c1'' \<in> set (ContainerIDs (Groups (config m0) ! 0))" by (simp add: m0_def)
  obtain e m' d' where r: "AddContainerToGroup (\<lambda>c d. (None, Some c)) (\<lambda>k. 7) m0 ''g1'' ''c1''
      (None :: GroupConfig option) = (e, m', d')"
    by (metis prod_cases3)
  from AddContainerToGroup_idempotent [OF r] g in1 have "e = None \<and> m' = m0 \<and> d' = None" by blast
  with r have 1: "AddContainerToGroup (\<lambda>c d. (None, Some c)) (\<lambda>k. 7) m0 ''g1'' ''c1'' None
      = (None, m0, None)" by simp
  obtain e2 m2 d2 where r2: "AddContainerToGroup (\<lambda>c d. (None, Some c)) (\<lambda>k. 7) m0 ''g1'' ''c2''
      (None :: GroupConfig option) = (e2, m2, d2)"
    by (metis prod_cases3)
  have e2: "e2 = None" and ids: "map ContainerIDs (Groups (config m2)) = [[''c1'', ''c2'']]"
    using r2 by (auto simp: AddContainerToGroup_def FindGroup_def UpdateGroup_def save_def m0_def Let_def)
  have again: "AddContainerToGroup (\<lambda>c d. (None, Some c)) (\<lambda>k. 7) m2 ''g1'' ''c2'' d2 = (None, m2, d2)"
    using AddContainerToGroup_idempotent [OF r2, of "\<lambda>c d. (None, Some c)" "\<lambda>k. 7"] g by simp
  have "\<exists>m' d'. AddContainerToGroup (\<lambda>c d. (None, Some c)) (\<lambda>k. 7) m0 ''g1'' ''c2'' None
                  = (None, m', d')
        \<and> map ContainerIDs (Groups (config m')) = [[''c1'', ''c2'']]
        \<and> AddContainerToGroup (\<lambda>c d. (None, Some c)) (\<lambda>k. 7) m' ''g1'' ''c2'' d' = (None, m', d')"
    using r2 e2 ids again by (intro exI [of _ m2] exI [of _ d2]) simp
  with 1 show ?thesis by (rule conjI)
qed

subsection \<open>\<open>ExecuteGroupOperation\<close>\<close>

lemma collect_errors_all:
  "(\<forall>r \<in> set rs. err r \<noteq> None \<longrightarrow> 12 \<le> length (containerID r)) \<Longrightarrow>
   collect_errors rs acc =
     Returned (acc @ map (\<lambda>r. take 12 (containerID r) @ '': '' @ the (err r))
                        (filter (\<lambda>r. err r \<noteq> None) rs))"
proof (induction rs arbitrary: acc)
  case Nil
  then show ?case by simp
next
  case (Cons r rs)
  then show ?case by (cases "err r") auto
qed

lemma sublist_join_space: "e \<in> set errs \<Longrightarrow> sublist e (join_space errs)"
proof (induction errs rule: join_space.induct)
  case 1
  then show ?case by simp
next
  case (2 x)
  then show ?case by simp
next
  case (3 x y ys)
  show ?case
  proof (cases "e = x")
    case True
    then show ?thesis by simp
  next
    case False
    with 3 have "sublist e (join_space (y # ys))" by simp
    then obtain ps ss where "join_space (y # ys) = ps @ e @ ss" by (auto simp: sublist_def)
    then have "join_space (x # y # ys) = (x @ '' '' @ ps) @ e @ ss" by simp
    then show ?thesis unfolding sublist_def by blast
  qed
qed

lemma sublist_format_errs: "e \<in> set errs \<Longrightarrow> sublist e (format_errs errs)"
proof -
  assume "e \<in> set errs"
  then have "sublist e (join_space errs)" by (rule sublist_join_space)
  then obtain ps ss where "join_space errs = ps @ e @ ss"
    unfolding sublist_def by blast
  then have "format_errs errs = (''['' @ ps) @ e @ (ss @ '']'')" by (simp add: format_errs_def)
  then show ?thesis unfolding sublist_def by blast
qed

lemma mset_failed_pick:
  "mset (map f (filter P (pick sched xs))) = mset (map f (filter P xs))"
proof -
  have "mset (map f (filter P (pick sched xs))) = image_mset f (filter_mset P (mset (pick sched xs)))"
    by simp
  also have "\<dots> = image_mset f (filter_mset P (mset xs))" by (simp only: pick_mset)
  also have "\<dots> = mset (map f (filter P xs))" by simp
  finally show ?thesis .
qed

lemma spawn_failed:
  "map (\<lambda>r. take 12 (containerID r) @ '': '' @ the (err r))
       (filter (\<lambda>r. err r \<noteq> None) (spawn_all ids operation))
   = map (\<lambda>id. take 12 id @ '': '' @ the (operation id)) (filter (\<lambda>id. operation id \<noteq> None) ids)"
  by (induction ids) (auto simp: spawn_all_def)

text \<open>
  Claim C3, as amended.  For a group that exists and whose failing container IDs have at
  least 12 bytes: the operation runs once for every container ID of the group, whatever
  fails; the method returns nil exactly when no operation fails; and otherwise it returns
  one error \<open>group operation failed: [...]\<close> that lists, for every failing container,
  the first 12 bytes of its ID, a colon and the cause.
\<close>

theorem ExecuteGroupOperation_aggregates:
  assumes g: "GetGroup m groupID = Some grp"
    and long: "\<forall>id \<in> set (ContainerIDs grp). operation id \<noteq> None \<longrightarrow> 12 \<le> length id"
  shows "let (ran, ret) = ExecuteGroupOperation m groupID operation sched;
             failing = filter (\<lambda>id. operation id \<noteq> None) (ContainerIDs grp)
         in mset ran = mset (ContainerIDs grp)
          \<and> (ret = Returned None \<longleftrightarrow> failing = [])
          \<and> (failing \<noteq> [] \<longrightarrow>
               (\<exists>errs. ret = Returned (Some (''group operation failed: '' @ format_errs errs))
                  \<and> mset errs = mset (map (\<lambda>id. take 12 id @ '': '' @ the (operation id)) failing)
                  \<and> (\<forall>e \<in> set errs. sublist e (format_errs errs))))"
proof -
  define results where "results = pick sched (spawn_all (ContainerIDs grp) operation)"
  define fmt where "fmt = (\<lambda>r :: result. take 12 (containerID r) @ '': '' @ the (err r))"
  define errs where "errs = map fmt (filter (\<lambda>r. err r \<noteq> None) results)"
  define failing where "failing = filter (\<lambda>id. operation id \<noteq> None) (ContainerIDs grp)"
  have perm: "mset results = mset (spawn_all (ContainerIDs grp) operation)"
    by (simp add: results_def pick_mset)
  have ran: "mset (map containerID results) = mset (ContainerIDs grp)"
  proof -
    have "mset (map containerID results) = image_mset containerID (mset results)" by simp
    also have "\<dots> = mset (map containerID (spawn_all (ContainerIDs grp) operation))"
      by (simp add: perm)
    also have "map containerID (spawn_all (ContainerIDs grp) operation) = ContainerIDs grp"
      by (simp add: spawn_all_def comp_def)
    finally show ?thesis .
  qed
  have "set results = set (spawn_all (ContainerIDs grp) operation)"
    using perm by (rule mset_eq_setD)
  then have "\<forall>r \<in> set results. err r \<noteq> None \<longrightarrow> 12 \<le> length (containerID r)"
    using long by (auto simp: spawn_all_def)
  then have coll: "collect_errors results [] = Returned errs"
    by (simp add: collect_errors_all errs_def fmt_def)
  have errs_mset: "mset errs = mset (map (\<lambda>id. take 12 id @ '': '' @ the (operation id)) failing)"
    unfolding errs_def results_def failing_def fmt_def
    by (simp only: mset_failed_pick spawn_failed)
  then have "size (mset errs) = size (mset (map (\<lambda>id. take 12 id @ '': '' @ the (operation id)) failing))"
    by simp
  then have len: "length errs = length failing" by simp
  have run: "ExecuteGroupOperation m groupID operation sched =
      (map containerID results,
       if length errs > 0 then Returned (Some (''group operation failed: '' @ format_errs errs))
       else Returned None)"
    using g coll by (simp add: ExecuteGroupOperation_def results_def Let_def)
  have "mset (map containerID results) = mset (ContainerIDs grp)
          \<and> ((if length errs > 0 then Returned (Some (''group operation failed: '' @ format_errs errs))
                else Returned None) = Returned None \<longleftrightarrow> failing = [])
          \<and> (failing \<noteq> [] \<longrightarrow>
               (\<exists>errs'. (if length errs > 0 then Returned (Some (''group operation failed: '' @ format_errs errs))
                    else Returned None) = Returned (Some (''group operation failed: '' @ format_errs errs'))
                  \<and> mset errs' = mset (map (\<lambda>id. take 12 id @ '': '' @ the (operation id)) failing)
                  \<and> (\<forall>e \<in> set errs'. sublist e (format_errs errs'))))"
    using ran len errs_mset sublist_format_errs by (cases "failing = []") auto
  then show ?thesis
    unfolding run Let_def prod.case failing_def [symmetric] .
qed

lemma m1_group: "GetGroup m1 ''g1'' = Some grp1"
  by (simp add: GetGroup_def FindGroup_def m1_def grp1_def)

text \<open>
  The claim C3 as stated fails: the error names only the first 12 bytes of a failing ID,
  not the ID, and a failing ID of fewer than 12 bytes makes the method panic.
\<close>

theorem ExecuteGroupOperation_counterexample:
  "snd (ExecuteGroupOperation m1 ''g1'' (fails_on ''bbbbbbbbbbbb2222'') [2, 0])
     = Returned (Some ''group operation failed: [bbbbbbbbbbbb: boom]'')
   \<and> \<not> sublist ''bbbbbbbbbbbb2222'' ''group operation failed: [bbbbbbbbbbbb: boom]''
   \<and> snd (ExecuteGroupOperation m1 ''g1'' (fails_on ''abc'') [2, 0]) = Panicked"
  by (simp add: ExecuteGroupOperation_def m1_group grp1_def spawn_all_def fails_on_def
      format_errs_def sublist_Cons_right)

text \<open>The group \<open>grp1\<close> when only its second container fails.\<close>

theorem ExecuteGroupOperation_aggregates_witness:
  "GetGroup m1 ''g1'' = Some grp1
   \<and> filter (\<lambda>cid. fails_on ''bbbbbbbbbbbb2222'' cid \<noteq> None) (ContainerIDs grp1)
       = [''bbbbbbbbbbbb2222'']
   \<and> mset (fst (ExecuteGroupOperation m1 ''g1'' (fails_on ''bbbbbbbbbbbb2222'') [2, 0]))
       = {#''aaaaaaaaaaaa1111'', ''bbbbbbbbbbbb2222'', ''abc''#}
   \<and> snd (ExecuteGroupOperation m1 ''g1'' (fails_on ''bbbbbbbbbbbb2222'') [2, 0]) \<noteq> Returned None"
proof -
  have long: "\<forall>cid \<in> set (ContainerIDs grp1).
         fails_on ''bbbbbbbbbbbb2222'' cid \<noteq> None \<longrightarrow> 12 \<le> length cid"
    by (simp add: grp1_def fails_on_def)
  have ids: "ContainerIDs grp1 = [''aaaaaaaaaaaa1111'', ''bbbbbbbbbbbb2222'', ''abc'']"
    by (simp add: grp1_def)
  have f: "filter (\<lambda>cid. fails_on ''bbbbbbbbbbbb2222'' cid \<noteq> None) (ContainerIDs grp1)
       = [''bbbbbbbbbbbb2222'']"
    by (simp add: ids fails_on_def)
  show ?thesis
    using ExecuteGroupOperation_aggregates [OF m1_group long, of "[2, 0]"] f
    by (auto simp: m1_group Let_def ids split: prod.splits)
qed

section \<open>Properties of the recreate workflow\<close>

lemma connect_networks_events:
  "ev \<in> set (fst (connect_networks api newID first nets w)) \<Longrightarrow> \<exists>n c e. ev = EvConnect n c e"
proof (induction api newID first nets w rule: connect_networks.induct)
  case (1 api newID firstNetworkName w)
  then show ?case by simp
next
  case (2 api newID firstNetworkName netName netConfig rest w)
  then show ?case by (auto simp: Let_def split: if_splits prod.splits)
qed

lemma connect_networks_no_other:
  "EvCreate name r \<notin> set (fst (connect_networks api newID first nets w))"
  "EvStart c s \<notin> set (fst (connect_networks api newID first nets w))"
  "EvRemove c s \<notin> set (fst (connect_networks api newID first nets w))"
  using connect_networks_events by fastforce+

lemma RecreateContainer_cases:
  obtains
    (remove_failed) stopErr w1 e w2 where
      "ContainerStop api cid 10 w = (stopErr, w1)" "ContainerRemove api cid True w1 = (Some e, w2)"
      "RecreateContainer api sched5 sched7 cid newConfig w =
         (Returned ([], Some (''failed to remove old container: '' @ e)),
          [EvStop cid stopErr, EvRemove cid (Some e)], w2)"
  | (nil_config) stopErr w1 w2 where
      "ContainerStop api cid 10 w = (stopErr, w1)" "ContainerRemove api cid True w1 = (None, w2)"
      "newConfig = None"
      "RecreateContainer api sched5 sched7 cid newConfig w =
         (Panicked, [EvStop cid stopErr, EvRemove cid None], w2)"
  | (create_failed) stopErr w1 w2 cfg e w3 where
      "ContainerStop api cid 10 w = (stopErr, w1)" "ContainerRemove api cid True w1 = (None, w2)"
      "newConfig = Some cfg"
      "ContainerCreate api (build_request cfg (first_network sched5 cfg)) w2 = (Inl e, w3)"
      "RecreateContainer api sched5 sched7 cid newConfig w =
         (Returned ([], Some (''failed to create new container: '' @ e)),
          [EvStop cid stopErr, EvRemove cid None, EvCreate (ContainerFullConfig.Name cfg) (Inl e)], w3)"
  | (created) stopErr w1 w2 cfg newID w3 evs w4 startErr w5 where
      "ContainerStop api cid 10 w = (stopErr, w1)" "ContainerRemove api cid True w1 = (None, w2)"
      "newConfig = Some cfg"
      "ContainerCreate api (build_request cfg (first_network sched5 cfg)) w2 = (Inr newID, w3)"
      "connect_networks api newID (first_network_name sched5 cfg)
                                          (pick sched7 (ContainerFullConfig.Networks cfg)) w3 = (evs, w4)"
      "ContainerStart api newID w4 = (startErr, w5)"
      "RecreateContainer api sched5 sched7 cid newConfig w =
         (Returned (newID, case startErr of None \<Rightarrow> None
                    | Some e \<Rightarrow> Some (''container created but failed to start: '' @ e)),
          [EvStop cid stopErr, EvRemove cid None, EvCreate (ContainerFullConfig.Name cfg) (Inr newID)] @ evs
            @ [EvStart newID startErr], w5)"
proof -
  obtain stopErr w1 where stop: "ContainerStop api cid 10 w = (stopErr, w1)" by fastforce
  obtain rmErr w2 where rm: "ContainerRemove api cid True w1 = (rmErr, w2)" by fastforce
  show thesis
  proof (cases rmErr)
    case (Some e)
    show thesis
      by (rule remove_failed [of stopErr w1 e w2])
         (simp_all add: RecreateContainer_def stop rm Some)
  next
    case None
    note rmNone = None
    show thesis
    proof (cases newConfig)
      case None
      show thesis
        by (rule nil_config [of stopErr w1 w2])
           (simp_all add: RecreateContainer_def stop rm rmNone None)
    next
      case (Some cfg)
      obtain resp w3 where
        cr: "ContainerCreate api (build_request cfg (first_network sched5 cfg)) w2 = (resp, w3)"
        by fastforce
      show thesis
      proof (cases resp)
        case (Inl e)
        show thesis
          by (rule create_failed [of stopErr w1 w2 cfg e w3])
             (simp_all add: RecreateContainer_def stop rm rmNone Some cr Inl)
      next
        case (Inr newID)
        obtain evs w4 where cn: "connect_networks api newID (first_network_name sched5 cfg)
                                          (pick sched7 (ContainerFullConfig.Networks cfg)) w3 = (evs, w4)"
          by fastforce
        obtain startErr w5 where st: "ContainerStart api newID w4 = (startErr, w5)" by fastforce
        show thesis
          by (rule created [of stopErr w1 w2 cfg newID w3 evs w4 startErr w5])
             (cases startErr; simp add: RecreateContainer_def stop rm rmNone Some cr Inr cn st)+
      qed
    qed
  qed
qed

lemma connect_networks_ContainerStop:
  "connect_networks (api\<lparr>ContainerStop := f\<rparr>) newID first nets w
     = connect_networks api newID first nets w"
  by (induction nets arbitrary: w) (auto simp: Let_def split: prod.splits)



text \<open>
  Claim C8.  Whatever the stop call answers, the next call of the run is the remove call
  for the same container, made in the state the stop call left; and the value returned is
  the one of the same run with a stop call that reports no error.
\<close>

theorem RecreateContainer_stop_best_effort:
  "(\<exists>rest. fst (snd (RecreateContainer api sched5 sched7 cid newConfig w))
        = EvStop cid (fst (ContainerStop api cid 10 w))
          # EvRemove cid (fst (ContainerRemove api cid True (snd (ContainerStop api cid 10 w))))
          # rest)
   \<and> fst (RecreateContainer api sched5 sched7 cid newConfig w)
     = fst (RecreateContainer (api\<lparr>ContainerStop := \<lambda>c t w. (None, snd (ContainerStop api c t w))\<rparr>)
              sched5 sched7 cid newConfig w)"
proof (cases rule: RecreateContainer_cases [of api cid w sched5 sched7 newConfig])
  case (remove_failed stopErr w1 e w2)
  then show ?thesis by (simp add: RecreateContainer_def)
next
  case (nil_config stopErr w1 w2)
  then show ?thesis by (simp add: RecreateContainer_def)
next
  case (create_failed stopErr w1 w2 cfg e w3)
  then show ?thesis by (simp add: RecreateContainer_def)
next
  case (created stopErr w1 w2 cfg newID w3 evs w4 startErr w5)
  then show ?thesis
    by (cases startErr) (simp_all add: RecreateContainer_def connect_networks_ContainerStop)
qed

section \<open>Properties of the reducer\<close>

lemma operation_done_error:
  "operation_done pre (Some e) ok cmds a
     = Returned (a\<lparr>errorMessage := pre @ e\<rparr>, Some (Batch cmds))"
  by (simp add: operation_done_def)

lemma container_operation_error_banner:
  "Update lib (ContainerStartedMsg cid (Some e)) a
     = Returned (a\<lparr>errorMessage := ''Failed to start container: '' @ e\<rparr>,
                 Some (Batch [Some (fetchContainers (docker a)), Some (Tick 2 ClearStatusMsg)]))"
  "Update lib (ContainerStoppedMsg cid (Some e)) a
     = Returned (a\<lparr>errorMessage := ''Failed to stop container: '' @ e\<rparr>,
                 Some (Batch [Some (fetchContainers (docker a)), Some (Tick 2 ClearStatusMsg)]))"
  "Update lib (ContainerRestartedMsg cid (Some e)) a
     = Returned (a\<lparr>errorMessage := ''Failed to restart container: '' @ e\<rparr>,
                 Some (Batch [Some (fetchContainers (docker a)), Some (Tick 2 ClearStatusMsg)]))"
  by (simp_all add: Update_def operation_done_error reload_containers_def clearStatus_def)

lemma delegate_errorMessage:
  "errorMessage (fst (delegate lib msg a)) = errorMessage a"
  by (cases "CurrentView (state a)") (simp_all add: delegate_def split: prod.splits)

text \<open>
  Claim C2 at the failing input.  \<open>Update\<close> has no case for \<open>ContainerRemovedMsg\<close>: the
  message goes to the current view, the error banner stays as it was and no
  \<open>ClearStatusMsg\<close> is scheduled; the start, stop and restart messages do what the claim
  says (\<open>container_operation_error_banner\<close>).
\<close>

theorem ContainerRemovedMsg_unhandled:
  "Update lib (ContainerRemovedMsg cid e) a = Returned (delegate lib (ContainerRemovedMsg cid e) a)
   \<and> errorMessage (fst (delegate lib (ContainerRemovedMsg cid e) a)) = errorMessage a
   \<and> Update lib0 (ContainerRemovedMsg ''0f1e2d3c4b5a6978'' (Some ''removal in progress'')) New
       = Returned (New, None)"
  by (simp add: Update_def delegate_errorMessage)
     (simp add: delegate_def New_def NewAppState_def lib0_def)

text \<open>
  Claim C1 at the failing input.  \<open>SetGroups\<close> never writes \<open>selectedGroup\<close>: when the
  refreshed collection no longer holds the selected group, the view goes on pointing to
  the removed group.  \<open>SetNetworks\<close> does clear its pointer
  (\<open>SetNetworks_clears_selectedNetwork\<close> below).
\<close>

theorem SetGroups_keeps_selectedGroup:
  "selectedGroup (SetGroups lib gs v) = selectedGroup v
   \<and> selectedGroup (SetGroups lib0 [] groups_selected) = Some grp1
   \<and> groups (SetGroups lib0 [] groups_selected) = []"
  by (simp add: SetGroups_def groups_selected_def)

lemma find_network_None: "find_network ns nid = None \<longleftrightarrow> nid \<notin> Network.ID ` set ns"
  by (induction ns) auto

lemma find_network_Containers:
  "find_network ns nid = None \<Longrightarrow> find_network (map (\<lambda>n. n\<lparr>Containers := f n\<rparr>) ns) nid = None"
  by (induction ns) (auto split: if_splits)

lemma syncNetworkContainerCounts_selected:
  "selectedNetwork v = Some sel \<Longrightarrow> find_network (networks v) (Network.ID sel) = None \<Longrightarrow>
   selectedNetwork (syncNetworkContainerCounts lib v) = Some sel
   \<and> find_network (networks (syncNetworkContainerCounts lib v)) (Network.ID sel) = None"
  by (simp add: syncNetworkContainerCounts_def Let_def find_network_Containers)

lemma SetNetworks_clears_selectedNetwork:
  assumes "selectedNetwork v = Some sel" and "Network.ID sel \<notin> Network.ID ` set ns"
  shows "selectedNetwork (SetNetworks lib ns v) = None"
proof -
  define v1 where "v1 = syncNetworkContainerCounts lib (v\<lparr>networks := ns\<rparr>)"
  have "find_network (networks (v\<lparr>networks := ns\<rparr>)) (Network.ID sel) = None"
    using assms(2) by (simp add: find_network_None)
  then have 1: "selectedNetwork v1 = Some sel"
    and 2: "find_network (networks v1) (Network.ID sel) = None"
    using syncNetworkContainerCounts_selected [of "v\<lparr>networks := ns\<rparr>" sel lib] assms(1)
    by (simp_all add: v1_def)
  show ?thesis
    using 1 2 by (simp add: SetNetworks_def Let_def v1_def [symmetric])
qed

text \<open>
  Claim C9 at the failing input.  The environment view reports filter mode, no modal is
  open, and the key \<open>q\<close> is taken by the global key bindings: the program quits.  The
  test for filter mode in \<open>Update\<close> names six views and leaves this one out.
\<close>

theorem env_filter_key_quits:
  "Update lib (KeyMsg ''q'') env_filtering = Returned (env_filtering, Some Quit)
   \<and> envVarsView_IsFiltering (envVarsView env_filtering)
   \<and> modal env_filtering = None"
  by (simp add: Update_def Update_KeyMsg_def env_filtering_def New_def NewAppState_def
      view_is_filtering_def global_keys_def key_quit_def)

text \<open>What holds of the routing: a visible modal gets every key, and then a filtering view
  among the six.\<close>

lemma modal_has_priority:
  "modal a = Some m \<Longrightarrow> visible m \<Longrightarrow> Update lib (KeyMsg k) a = modal_key lib (KeyMsg k) m a"
  by (simp add: Update_def Update_KeyMsg_def)

lemma filter_has_priority:
  "modal a = None \<Longrightarrow> view_is_filtering a \<Longrightarrow>
   Update lib (KeyMsg k) a = Returned (delegate lib (KeyMsg k) a)"
  by (auto simp: Update_def Update_KeyMsg_def filter_delegate_def view_is_filtering_def)

section \<open>Properties of the running program\<close>








lemma steps_append: "steps lib e (xs @ ys) s = steps lib e ys (steps lib e xs s)"
  by (induction xs arbitrary: s) simp_all

lemma step_Input: "status s = Running \<Longrightarrow> step lib e (Input msg) s = deliver lib msg s"
  by (simp add: step_def)


lemma deliver_Returned:
  "Update lib msg (app s) = Returned (a, cmd) \<Longrightarrow>
   deliver lib msg s = s\<lparr>app := a, running := running s @ start cmd, delivered := delivered s @ [msg]\<rparr>"
  by (simp add: deliver_def)

lemma deliver_status:
  "status (deliver lib msg s) = (case Update lib msg (app s) of Panicked \<Rightarrow> Crashed | _ \<Rightarrow> status s)"
  by (simp add: deliver_def split: outcome.splits prod.splits)

lemma deliver_world: "world (deliver lib msg s) = world s"
  by (simp add: deliver_def split: outcome.splits prod.splits)

lemma run_cmd_status: "status (snd (run_cmd e choice cmd s)) = status s"
  unfolding run_cmd_def
  by (simp add: Let_def split: Cmd.split option.split prod.split wait_result.split)

lemma run_cmd_Quits: "fst (run_cmd e choice cmd s) = Quits \<longleftrightarrow> cmd = Quit"
  unfolding run_cmd_def
  by (simp add: Let_def split: Cmd.split option.split prod.split wait_result.split)

lemma step_exit:
  assumes "status s = Running" "status (step lib e act s) = Exited n"
  shows "(n = 0 \<and> (\<exists>i choice. act = Run i choice \<and> i < length (running s) \<and> running s ! i = Quit))
       \<or> (n = 1 \<and> (\<exists>er. act = LoopFails er))"
proof (cases act)
  case (Input msg)
  then show ?thesis using assms by (simp add: step_def deliver_status split: outcome.splits)
next
  case (Run i choice)
  show ?thesis
  proof (cases "i < length (running s)")
    case False
    then show ?thesis using assms Run by (simp add: step_def)
  next
    case True
    obtain r s' where rc: "run_cmd e choice (running s ! i) s = (r, s')" by fastforce
    have st: "status s' = Running" using run_cmd_status [of e choice "running s ! i" s] rc assms(1) by simp
    show ?thesis
    proof (cases r)
      case Quits
      then have "running s ! i = Quit" using run_cmd_Quits [of e choice "running s ! i" s] rc by simp
      moreover have "n = 0" using assms Run True rc Quits by (simp add: step_def main_exit_code_def)
      ultimately show ?thesis using Run True by simp
    next
      case Waits
      then show ?thesis using assms Run True rc by (simp add: step_def)
    next
      case (Continues c)
      then show ?thesis using assms Run True rc st by (simp add: step_def)
    next
      case (Finished m)
      then show ?thesis using assms Run True rc st
        by (cases m) (simp_all add: step_def deliver_status split: outcome.splits)
    qed
  qed
next
  case (Produce i)
  then show ?thesis using assms by (simp add: step_def Let_def split: if_splits prod.splits)
next
  case (LoopFails er)
  then show ?thesis using assms by (simp add: step_def main_exit_code_def)
qed





lemma ready_fields:
  "modal ready_app = None" "docker ready_app = Some \<lparr>closed = False\<rparr>"
  "state ready_app = NewAppState"
  "containersView_IsFiltering (containersView ready_app) = False"
  "containersView_GetSelectedContainer (containersView ready_app) = Some web"
  by (simp_all add: ready_app_def New_def)

lemma Update_key_l:
  assumes "modal a = None" "CurrentView (state a) = ViewContainers"
    "\<not> containersView_IsFiltering (containersView a)"
    "containersView_GetSelectedContainer (containersView a) = Some c"
  shows "Update lib (KeyMsg ''l'') a
     = Returned (a\<lparr>state := (state a)\<lparr>PreviousView := ViewContainers, CurrentView := ViewLogs,
                                         SelectedContainer := Some c\<rparr>,
                   logsView := LogsView_SetContainer (Container.ID c) (Container.Name c) (logsView a)\<rparr>,
                 Some (startLogStreaming (docker a) c))"
  using assms
  by (simp add: Update_def Update_KeyMsg_def view_is_filtering_def global_keys_def key_l_def
      detail_container_def)

lemma Update_leave_stream_view:
  assumes "modal a = None" "CurrentView (state a) = ViewLogs \<or> CurrentView (state a) = ViewStats"
    "k = ''q'' \<or> k = ''ctrl+c''"
  shows "Update lib (KeyMsg k) a = Returned (show_view ViewContainers a, None)"
proof -
  have nf: "\<not> view_is_filtering a"
    using assms(2) by (auto simp: view_is_filtering_def)
  have q: "key_quit a = Some (Returned (show_view ViewContainers a, None))"
    using assms(2) by (auto simp: key_quit_def)
  have "global_keys lib k a = key_quit a"
    using assms(3) by (elim disjE) (simp_all add: global_keys_def)
  then show ?thesis using assms(1) nf q by (simp add: Update_def Update_KeyMsg_def)
qed

lemma delegate_logsView:
  "CurrentView (state a) \<noteq> ViewLogs \<Longrightarrow> logsView (fst (delegate lib msg a)) = logsView a"
  by (cases "CurrentView (state a)") (simp_all add: delegate_def split: prod.splits)

lemma delegate_statsView:
  "CurrentView (state a) \<noteq> ViewStats \<Longrightarrow> statsView (fst (delegate lib msg a)) = statsView a"
  by (cases "CurrentView (state a)") (simp_all add: delegate_def split: prod.splits)

lemma Update_stream_msg:
  "Update lib (LogEntryMsg entry) a = Returned (delegate lib (LogEntryMsg entry) a)"
  "Update lib (ContainerStatsMsg sample) a = Returned (delegate lib (ContainerStatsMsg sample) a)"
  by (simp_all add: Update_def)

lemma step_Produce:
  "status s = Running \<Longrightarrow> i < length (producers (world s)) \<Longrightarrow>
   producer_step (producers (world s) ! i) (world s) = (p, st) \<Longrightarrow>
   step lib e (Produce i) s = s\<lparr>world := st\<lparr>producers := (producers st)[i := p]\<rparr>\<rparr>"
  by (simp add: step_def)

lemma step_Run:
  "status s = Running \<Longrightarrow> i < length (running s) \<Longrightarrow>
   run_cmd e choice (running s ! i) s = (r, s') \<Longrightarrow>
   step lib e (Run i choice) s =
     (case r of
        Waits \<Rightarrow> s
      | Quits \<Rightarrow> s\<lparr>status := Exited (main_exit_code None)\<rparr>
      | Continues c \<Rightarrow> s'\<lparr>running := (running s')[i := c]\<rparr>
      | Finished m \<Rightarrow>
          (let s'' = s'\<lparr>running := remove_nth i (running s')\<rparr>
           in case m of None \<Rightarrow> s'' | Some msg \<Rightarrow> deliver lib msg s''))"
  by (simp add: step_def split: run_result.splits)

lemma started:
  "step lib0 env_up (Run 0 True) (step lib0 env_up (Input (KeyMsg ''l'')) ready_sys)
   = \<lparr>app = logs_app, running = [waitForLogEntry (Some 0) (Some (Suc 0))],
      world = stream_world [] [LogEntryMsg rec1, LogEntryMsg rec2] False False Emitting,
      status = Running, delivered = [KeyMsg ''l'']\<rparr>"
proof -
  have u: "Update lib0 (KeyMsg ''l'') (app ready_sys)
     = Returned (ready_app\<lparr>state := NewAppState\<lparr>PreviousView := ViewContainers, CurrentView := ViewLogs,
                                         SelectedContainer := Some web\<rparr>,
                   logsView := LogsView_SetContainer (Container.ID web) (Container.Name web) (logsView ready_app)\<rparr>,
                 Some (startLogStreaming (Some \<lparr>closed = False\<rparr>) web))"
    using Update_key_l [of ready_app web lib0]
    by (simp add: ready_sys_def ready_fields NewAppState_def)
  have s1: "step lib0 env_up (Input (KeyMsg ''l'')) ready_sys
     = ready_sys\<lparr>app := ready_app\<lparr>state := NewAppState\<lparr>PreviousView := ViewContainers, CurrentView := ViewLogs,
                                         SelectedContainer := Some web\<rparr>,
                   logsView := LogsView_SetContainer (Container.ID web) (Container.Name web) (logsView ready_app)\<rparr>,
          running := [startLogStreaming (Some \<lparr>closed = False\<rparr>) web],
          delivered := [KeyMsg ''l'']\<rparr>"
    using deliver_Returned [OF u]
    by (simp add: step_Input ready_sys_def initial_def start_def)
  show ?thesis
    unfolding s1
    by (simp add: step_def run_cmd_def ready_sys_def initial_def env_up_def open_stream_def
        logs_app_def stream_world_def make_chan_def fun_upd_twist)
qed


lemma produce_emit:
  "length buf < 100 \<Longrightarrow>
   step lib e (Produce 0) \<lparr>app = a, running = r,
      world = stream_world buf (x # xs) ec dc Emitting, status = Running, delivered = d\<rparr>
   = \<lparr>app = a, running = r, world = stream_world (buf @ [x]) xs ec dc Emitting,
      status = Running, delivered = d\<rparr>"
  by (simp add: step_def producer_step_def stream_world_def can_send_def send_def)

lemma produce_close_error:
  "step lib e (Produce 0) \<lparr>app = a, running = r,
      world = stream_world buf [] ec dc Emitting, status = Running, delivered = d\<rparr>
   = \<lparr>app = a, running = r, world = stream_world buf [] True dc ClosingData,
      status = Running, delivered = d\<rparr>"
  by (simp add: step_def producer_step_def stream_world_def close_def)

lemma produce_close_data:
  "step lib e (Produce 0) \<lparr>app = a, running = r,
      world = stream_world buf [] ec dc ClosingData, status = Running, delivered = d\<rparr>
   = \<lparr>app = a, running = r, world = stream_world buf [] ec True Ended,
      status = Running, delivered = d\<rparr>"
  by (simp add: step_def producer_step_def stream_world_def close_def)

lemma select_stream:
  "select_recv choice wrap (Some 0) (Some (Suc 0)) (stream_world buf pend ec dc ph) =
     (if (buf \<noteq> [] \<or> dc) \<and> (choice \<or> \<not> ec) then
        (case buf of
           x # xs \<Rightarrow> (Received (Some x), stream_world xs pend ec dc ph)
         | [] \<Rightarrow> (Received None, stream_world buf pend ec dc ph))
      else if ec then (Received None, stream_world buf pend ec dc ph)
      else (Blocked, stream_world buf pend ec dc ph))"
  by (cases buf) (simp_all add: select_recv_def can_recv_def stream_world_def)

lemma wait_error_branch:
  "buf \<noteq> [] \<Longrightarrow>
   step lib e (Run 0 False) \<lparr>app = a, running = [waitForLogEntry (Some 0) (Some (Suc 0))],
      world = stream_world buf pend True dc ph, status = Running, delivered = d\<rparr>
   = \<lparr>app = a, running = [], world = stream_world buf pend True dc ph,
      status = Running, delivered = d\<rparr>"
  by (simp add: step_def run_cmd_def select_stream remove_nth_def)

lemma wait_data_branch:
  "step lib e (Run 0 True) \<lparr>app = a, running = [waitForLogEntry (Some 0) (Some (Suc 0))],
      world = stream_world (x # xs) pend ec dc ph, status = Running, delivered = d\<rparr>
   = deliver lib x \<lparr>app = a, running = [], world = stream_world xs pend ec dc ph,
      status = Running, delivered = d\<rparr>"
  by (simp add: step_def run_cmd_def select_stream remove_nth_def)

text \<open>
  Claim C6 at the failing input.  The producer has emitted two records and closed both
  channels; the wait command that is outstanding then runs, and its \<open>select\<close> takes the
  closed error channel although the data channel still holds both records: the command
  returns nil, no wait command is left, and the reducer has received none of the two
  records.
\<close>

theorem log_records_lost:
  "steps lib0 env_up
     [Input (KeyMsg ''l''), Run 0 True, Produce 0, Produce 0, Produce 0, Produce 0, Run 0 False]
     ready_sys
   = \<lparr>app = logs_app, running = [],
      world = stream_world [LogEntryMsg rec1, LogEntryMsg rec2] [] True True Ended,
      status = Running, delivered = [KeyMsg ''l'']\<rparr>"
  by (simp only: steps.simps started)
     (simp add: produce_emit produce_close_error produce_close_data wait_error_branch)

lemma logs_app_fields:
  "modal logs_app = None" "CurrentView (state logs_app) = ViewLogs"
  by (simp_all add: logs_app_def ready_fields NewAppState_def)

lemma left_fields:
  "CurrentView (state (show_view ViewContainers logs_app)) = ViewContainers"
  "containersView (show_view ViewContainers logs_app) = containersView ready_app"
  by (simp_all add: show_view_def logs_app_def)

text \<open>
  The claim C7 as stated fails.  The user opens the logs of a container and leaves the
  view with \<open>q\<close>; the wait command that was outstanding then delivers the first record
  to the reducer, after the view change, and the producer, which nothing has cancelled,
  goes on and emits the second record.
\<close>

theorem stream_survives_leaving:
  "steps lib0 env_up
     [Input (KeyMsg ''l''), Run 0 True, Produce 0, Input (KeyMsg ''q''), Run 0 True, Produce 0]
     ready_sys
   = \<lparr>app = show_view ViewContainers logs_app, running = [],
      world = stream_world [LogEntryMsg rec2] [] False False Emitting,
      status = Running, delivered = [KeyMsg ''l'', KeyMsg ''q'', LogEntryMsg rec1]\<rparr>"
proof -
  have q: "Update lib0 (KeyMsg ''q'') logs_app = Returned (show_view ViewContainers logs_app, None)"
    by (rule Update_leave_stream_view) (simp_all add: logs_app_fields)
  have leave: "step lib0 env_up (Input (KeyMsg ''q''))
      \<lparr>app = logs_app, running = r, world = w, status = Running, delivered = d\<rparr>
    = \<lparr>app = show_view ViewContainers logs_app, running = r, world = w, status = Running,
       delivered = d @ [KeyMsg ''q'']\<rparr>" for r w d
    using deliver_Returned [of lib0 "KeyMsg ''q''"
        "\<lparr>app = logs_app, running = r, world = w, status = Running, delivered = d\<rparr>", OF _]
      q
    by (simp add: step_Input start_def)
  have e: "Update lib0 (LogEntryMsg rec1) (show_view ViewContainers logs_app)
      = Returned (show_view ViewContainers logs_app, None)"
    by (simp add: Update_stream_msg delegate_def left_fields lib0_def)
  have late: "deliver lib0 (LogEntryMsg rec1)
      \<lparr>app = show_view ViewContainers logs_app, running = r, world = w, status = Running,
        delivered = d\<rparr>
    = \<lparr>app = show_view ViewContainers logs_app, running = r, world = w, status = Running,
       delivered = d @ [LogEntryMsg rec1]\<rparr>" for r w d
    using deliver_Returned [of lib0 "LogEntryMsg rec1"
        "\<lparr>app = show_view ViewContainers logs_app, running = r, world = w, status = Running,
          delivered = d\<rparr>", OF _] e
    by (simp add: start_def)
  show ?thesis
    by (simp only: steps.simps started)
       (simp add: produce_emit leave wait_data_branch late)
qed

lemma show_view_fields:
  "logsView (show_view v a) = logsView a" "statsView (show_view v a) = statsView a"
  "CurrentView (state (show_view v a)) = v"
  by (simp_all add: show_view_def)

lemma delegate_to_logsView:
  "CurrentView (state a) = ViewLogs \<Longrightarrow>
   delegate lib (LogEntryMsg entry) a
     = (a\<lparr>logsView := fst (LogsView_Update lib (LogEntryMsg entry) (logsView a))\<rparr>,
        Some (ViewsWaitForLogEntry (lv_logsChan (logsView a)) (lv_errorChan (logsView a))))"
  by (simp add: delegate_def LogsView_Update_def Let_def)

lemma LogsView_Update_lines:
  "lv_lines (fst (LogsView_Update lib (LogEntryMsg entry) v))
     = (if length (lv_lines v @ [Line entry]) > lv_maxLines v
        then drop (length (lv_lines v @ [Line entry]) - lv_maxLines v) (lv_lines v @ [Line entry])
        else lv_lines v @ [Line entry])"
  by (simp add: LogsView_Update_def Let_def)

lemma delegate_to_statsView:
  "CurrentView (state a) = ViewStats \<Longrightarrow>
   delegate lib (ContainerStatsMsg sample) a
     = (a\<lparr>statsView := fst (StatsView_Update (ContainerStatsMsg sample) (statsView a))\<rparr>,
        Some (ViewsWaitForStats (sv_statsChan (statsView a)) (sv_errorChan (statsView a))))"
  by (simp add: delegate_def StatsView_Update_def Let_def)

lemma StatsView_Update_stats:
  "sv_stats (fst (StatsView_Update (ContainerStatsMsg sample) v)) = Some sample"
  by (simp add: StatsView_Update_def Let_def)

text \<open>
  Claim C7, as amended.  Leaving the logs or statistics view with \<open>q\<close> or \<open>ctrl+c\<close> only
  makes the containers view current: the reducer returns no command, and the commands
  that are outstanding, the channels and the producers are left as they are, so that
  nothing tears the subscription down and its events can still enter the loop.  A log
  record or a statistics sample that is delivered later, in whatever state \<open>a'\<close> the model
  then is, goes to the \<open>Update\<close> of the view that is current in \<open>a'\<close>.  While that is not
  the logs view (the statistics view), the logs view (the statistics view) is not changed
  by it; this is so right after leaving.  When the logs view (the statistics view) is
  current again, the record is appended to its lines (the sample becomes its current
  sample) and the view arms a wait on the channels that it then holds.
\<close>

theorem leaving_keeps_subscription:
  assumes "modal (app s) = None"
    and "CurrentView (state (app s)) = ViewLogs \<or> CurrentView (state (app s)) = ViewStats"
    and "k = ''q'' \<or> k = ''ctrl+c''"
  shows "Update lib (KeyMsg k) (app s) = Returned (show_view ViewContainers (app s), None)
       \<and> app (deliver lib (KeyMsg k) s) = show_view ViewContainers (app s)
       \<and> running (deliver lib (KeyMsg k) s) = running s
       \<and> world (deliver lib (KeyMsg k) s) = world s
       \<and> status (deliver lib (KeyMsg k) s) = status s
       \<and> logsView (fst (delegate lib (LogEntryMsg entry) (show_view ViewContainers (app s))))
           = logsView (app s)
       \<and> statsView (fst (delegate lib (ContainerStatsMsg sample) (show_view ViewContainers (app s))))
           = statsView (app s)
       \<and> Update lib (LogEntryMsg entry) a' = Returned (delegate lib (LogEntryMsg entry) a')
       \<and> (CurrentView (state a') \<noteq> ViewLogs \<longrightarrow>
            logsView (fst (delegate lib (LogEntryMsg entry) a')) = logsView a')
       \<and> (CurrentView (state a') = ViewLogs \<longrightarrow>
            delegate lib (LogEntryMsg entry) a'
              = (a'\<lparr>logsView := fst (LogsView_Update lib (LogEntryMsg entry) (logsView a'))\<rparr>,
                 Some (ViewsWaitForLogEntry (lv_logsChan (logsView a')) (lv_errorChan (logsView a'))))
            \<and> lv_lines (fst (LogsView_Update lib (LogEntryMsg entry) (logsView a')))
              = (if length (lv_lines (logsView a') @ [Line entry]) > lv_maxLines (logsView a')
                 then drop (length (lv_lines (logsView a') @ [Line entry]) - lv_maxLines (logsView a'))
                        (lv_lines (logsView a') @ [Line entry])
                 else lv_lines (logsView a') @ [Line entry]))
       \<and> Update lib (ContainerStatsMsg sample) a'
           = Returned (delegate lib (ContainerStatsMsg sample) a')
       \<and> (CurrentView (state a') \<noteq> ViewStats \<longrightarrow>
            statsView (fst (delegate lib (ContainerStatsMsg sample) a')) = statsView a')
       \<and> (CurrentView (state a') = ViewStats \<longrightarrow>
            delegate lib (ContainerStatsMsg sample) a'
              = (a'\<lparr>statsView := fst (StatsView_Update (ContainerStatsMsg sample) (statsView a'))\<rparr>,
                 Some (ViewsWaitForStats (sv_statsChan (statsView a')) (sv_errorChan (statsView a'))))
            \<and> sv_stats (fst (StatsView_Update (ContainerStatsMsg sample) (statsView a')))
              = Some sample)"
proof -
  have u: "Update lib (KeyMsg k) (app s) = Returned (show_view ViewContainers (app s), None)"
    using assms by (rule Update_leave_stream_view)
  have d: "deliver lib (KeyMsg k) s
      = s\<lparr>app := show_view ViewContainers (app s), running := running s @ start None,
          delivered := delivered s @ [KeyMsg k]\<rparr>"
    using u by (rule deliver_Returned)
  have d1: "app (deliver lib (KeyMsg k) s) = show_view ViewContainers (app s)"
    and d2: "running (deliver lib (KeyMsg k) s) = running s"
    and d3: "world (deliver lib (KeyMsg k) s) = world s"
    and d4: "status (deliver lib (KeyMsg k) s) = status s"
    unfolding d by (simp_all add: start_def)
  have l: "logsView (fst (delegate lib (LogEntryMsg entry) (show_view ViewContainers (app s))))
           = logsView (app s)"
    by (simp add: delegate_logsView show_view_fields)
  have t: "statsView (fst (delegate lib (ContainerStatsMsg sample) (show_view ViewContainers (app s))))
           = statsView (app s)"
    by (simp add: delegate_statsView show_view_fields)
  have e1: "Update lib (LogEntryMsg entry) a' = Returned (delegate lib (LogEntryMsg entry) a')"
    by (rule Update_stream_msg(1))
  have e2: "Update lib (ContainerStatsMsg sample) a'
           = Returned (delegate lib (ContainerStatsMsg sample) a')"
    by (rule Update_stream_msg(2))
  have g1: "CurrentView (state a') \<noteq> ViewLogs \<longrightarrow>
            logsView (fst (delegate lib (LogEntryMsg entry) a')) = logsView a'"
    using delegate_logsView [of a' lib "LogEntryMsg entry"] by blast
  have g2: "CurrentView (state a') = ViewLogs \<longrightarrow>
            delegate lib (LogEntryMsg entry) a'
              = (a'\<lparr>logsView := fst (LogsView_Update lib (LogEntryMsg entry) (logsView a'))\<rparr>,
                 Some (ViewsWaitForLogEntry (lv_logsChan (logsView a')) (lv_errorChan (logsView a'))))
            \<and> lv_lines (fst (LogsView_Update lib (LogEntryMsg entry) (logsView a')))
              = (if length (lv_lines (logsView a') @ [Line entry]) > lv_maxLines (logsView a')
                 then drop (length (lv_lines (logsView a') @ [Line entry]) - lv_maxLines (logsView a'))
                        (lv_lines (logsView a') @ [Line entry])
                 else lv_lines (logsView a') @ [Line entry])"
    using delegate_to_logsView [of a' lib entry] LogsView_Update_lines [of lib entry "logsView a'"]
    by blast
  have h1: "CurrentView (state a') \<noteq> ViewStats \<longrightarrow>
            statsView (fst (delegate lib (ContainerStatsMsg sample) a')) = statsView a'"
    using delegate_statsView [of a' lib "ContainerStatsMsg sample"] by blast
  have h2: "CurrentView (state a') = ViewStats \<longrightarrow>
            delegate lib (ContainerStatsMsg sample) a'
              = (a'\<lparr>statsView := fst (StatsView_Update (ContainerStatsMsg sample) (statsView a'))\<rparr>,
                 Some (ViewsWaitForStats (sv_statsChan (statsView a')) (sv_errorChan (statsView a'))))
            \<and> sv_stats (fst (StatsView_Update (ContainerStatsMsg sample) (statsView a')))
              = Some sample"
    using delegate_to_statsView [of a' lib sample] StatsView_Update_stats [of sample "statsView a'"]
    by blast
  show ?thesis using u d1 d2 d3 d4 l t e1 g1 g2 e2 h1 h2 by (intro conjI)
qed

text \<open>The logs of the container \<open>web\<close> are open, one record is buffered and one is still to
  come, and the user presses \<open>q\<close>; the record then arrives in the containers view, or in
  the logs view when that is current again.\<close>

theorem leaving_keeps_subscription_witness:
  "modal logs_app = None \<and> CurrentView (state logs_app) = ViewLogs
   \<and> Update lib0 (KeyMsg ''q'') logs_app = Returned (show_view ViewContainers logs_app, None)
   \<and> running (deliver lib0 (KeyMsg ''q'')
        \<lparr>app = logs_app, running = [waitForLogEntry (Some 0) (Some 1)],
          world = stream_world [LogEntryMsg rec1] [LogEntryMsg rec2] False False Emitting,
          status = Running, delivered = [KeyMsg ''l'']\<rparr>)
       = [waitForLogEntry (Some 0) (Some 1)]
   \<and> world (deliver lib0 (KeyMsg ''q'')
        \<lparr>app = logs_app, running = [waitForLogEntry (Some 0) (Some 1)],
          world = stream_world [LogEntryMsg rec1] [LogEntryMsg rec2] False False Emitting,
          status = Running, delivered = [KeyMsg ''l'']\<rparr>)
       = stream_world [LogEntryMsg rec1] [LogEntryMsg rec2] False False Emitting
   \<and> CurrentView (state (show_view ViewContainers logs_app)) \<noteq> ViewLogs
   \<and> logsView (fst (delegate lib0 (LogEntryMsg rec1) (show_view ViewContainers logs_app)))
       = logsView logs_app
   \<and> snd (delegate lib0 (LogEntryMsg rec1) logs_app)
       = Some (ViewsWaitForLogEntry (Some 0) (Some 1))
   \<and> lv_lines (logsView (fst (delegate lib0 (LogEntryMsg rec1) logs_app))) = [Line rec1]"
proof -
  note t = leaving_keeps_subscription [of
      "\<lparr>app = logs_app, running = [waitForLogEntry (Some 0) (Some 1)],
        world = stream_world [LogEntryMsg rec1] [LogEntryMsg rec2] False False Emitting,
        status = Running, delivered = [KeyMsg ''l'']\<rparr>" "''q''" lib0 rec1 _ logs_app]
  have c: "lv_logsChan (logsView logs_app) = Some 0" "lv_errorChan (logsView logs_app) = Some 1"
    "lv_lines (logsView logs_app) = []" "lv_maxLines (logsView logs_app) = 1000"
    by (simp_all add: logs_app_def LogsView_StartStreaming_def LogsView_SetContainer_def
        ready_app_def New_def NewLogsView_def)
  show ?thesis using t c by (simp add: logs_app_fields show_view_fields)
qed

end
